theory Spec2Isabelle
  imports Main "HOL-Library.Word" "HOL-Library.AList"
begin

section \<open>The frontend gateway client (package grpcclient)\<close>

text \<open>
  A shallow embedding of the gateway client: the environment decoder \<open>opts\<close>, the
  \<open>Solve\<close> path, the \<open>Run\<close> driver, the per-process mailbox
  \<open>procMessageForwarder\<close>, the exec multiplexer \<open>messageForwarder\<close> and the event
  loop of a container process.

  Conventions. A Go \<open>string\<close> or \<open>[]byte\<close> is a \<open>string\<close> (a list of bytes). A Go
  \<open>error\<close> value is an \<open>error option\<close>, \<open>None\<close> being \<open>nil\<close>. A Go map that the code
  only looks up and stores into is a partial function; a Go map that the code ranges over
  is an association list holding the entries in the order this run of the loop visits
  them (Go leaves that order unspecified, so every order is a possible input). A call that
  can panic returns a \<open>go\<close> value. The daemon on the other end of the transport is a
  record of functions answering each RPC from the calls seen so far and the request.
\<close>

type_synonym bytes = string

datatype 'a go = Ret 'a | Panic

subsection \<open>Environment decoder\<close>

definition frontendPrefix :: string where
  "frontendPrefix = ''BUILDKIT_FRONTEND_OPT_''"

text \<open>\<open>strings.SplitN(s, "=", 2)\<close>: the whole string when it has no \<open>=\<close>, otherwise the
  part before the first \<open>=\<close> and the part after it.\<close>

definition SplitN2 :: "string \<Rightarrow> string list" where
  "SplitN2 s =
     (if CHR ''='' \<in> set s
      then [takeWhile (\<lambda>c. c \<noteq> CHR ''='') s, tl (dropWhile (\<lambda>c. c \<noteq> CHR ''='') s)]
      else [s])"

definition HasPrefix :: "string \<Rightarrow> string \<Rightarrow> bool" where
  "HasPrefix s p = (take (length p) s = p)"

text \<open>The body of the loop of \<open>opts()\<close> for one entry \<open>env\<close> of \<open>os.Environ()\<close>.\<close>

definition opts_entry :: "(string \<rightharpoonup> string) \<Rightarrow> string \<Rightarrow> (string \<rightharpoonup> string)" where
  "opts_entry m env =
     (let parts = SplitN2 env;
          k = hd parts;
          v = (if length parts = 2 then parts ! 1 else '''')
      in if \<not> HasPrefix k frontendPrefix then m
         else (let parts' = SplitN2 v;
                   v' = (if length parts' = 2 then parts' ! 1 else '''')
               in m(hd parts' \<mapsto> v')))"

text \<open>\<open>opts()\<close>, with the process environment as its argument.\<close>

definition opts :: "string list \<Rightarrow> (string \<rightharpoonup> string)" where
  "opts environ = foldl opts_entry Map.empty environ"

text \<open>Decimal rendering of an index, as \<open>%d\<close> prints it.\<close>

definition digit :: "nat \<Rightarrow> char" where
  "digit d = ''0123456789'' ! d"

function Itoa :: "nat \<Rightarrow> string" where
  "Itoa n = (if n < 10 then [digit n] else Itoa (n div 10) @ [digit (n mod 10)])"
  by pat_completeness auto
termination
  by (relation "measure id") auto

declare Itoa.simps [simp del]

text \<open>
  Modelled from the spec: the encoder \<open>RunFrontendOptEnv\<close> of the daemon side is not among
  the sources. The spec says that a map is encoded into \<open>BUILDKIT_FRONTEND_OPT_*\<close>
  variables, one per entry, and that each variable's value has the form \<open>name=value\<close>.
  The variable of the \<open>i\<close>-th entry is named by its index. The map is given by its
  entries \<open>kvs\<close> (distinct keys), in the order the encoder visits them.
\<close>

fun RunFrontendOptEnv_from :: "nat \<Rightarrow> (string \<times> string) list \<Rightarrow> string list" where
  "RunFrontendOptEnv_from i [] = []"
| "RunFrontendOptEnv_from i ((k, v) # kvs) =
     (frontendPrefix @ Itoa i @ ''='' @ k @ ''='' @ v) # RunFrontendOptEnv_from (Suc i) kvs"

definition RunFrontendOptEnv :: "(string \<times> string) list \<Rightarrow> string list" where
  "RunFrontendOptEnv kvs = RunFrontendOptEnv_from 0 kvs"

subsection \<open>Wire messages and errors\<close>

text \<open>\<open>spb.Status\<close>: the status triple of an RPC error.\<close>

record status =
  st_Code :: "32 word"
  st_Message :: string
  st_Details :: "bytes list"

text \<open>The payloads of an \<open>ExecMessage\<close> (the oneof \<open>Input\<close>). \<open>NoInput\<close> is a message
  whose oneof is not set. The \<open>Error\<close> of an \<open>ExitMessage\<close> is a pointer and may be
  absent.\<close>

record InitMessage =
  im_ContainerID :: string
  im_Args :: "string list"
  im_Env :: "string list"
  im_Cwd :: string
  im_User :: string
  im_Fds :: "32 word list"
  im_Tty :: bool

record FdMessage =
  fd_Fd :: "32 word"
  fd_EOF :: bool
  fd_Data :: bytes

record ResizeMessage =
  rz_Rows :: "32 word"
  rz_Cols :: "32 word"

record ExitMessage =
  ex_Code :: "32 word"
  ex_Error :: "status option"

datatype exec_input =
    Init InitMessage
  | File FdMessage
  | Resize ResizeMessage
  | Signal string
  | Started
  | Exit ExitMessage
  | Done
  | NoInput

record ExecMessage =
  ProcessID :: string
  Input :: exec_input

text \<open>
  The errors the client builds, one constructor per error the source constructs, carrying
  what the source formats into it. \<open>RpcError\<close> is an error handed over by the transport or
  the daemon (a gRPC status code and message); \<open>OtherError\<close> is an error of a library or
  of the caller's writers. \<open>MissingCap\<close> is the capability error of
  \<open>apicaps.CapSet.Supports\<close>; \<open>ExitError\<close> is \<open>pb.ExitError{ExitCode, Err}\<close>.
\<close>

datatype error =
    MissingCap string
  | RpcError "32 word" string
  | OtherError string
  | InvalidReturnReferenceType string
  | UnexpectedReferenceType string
  | ReturnReferenceInvalidType string
  | DidNotFindRequest string
  | Wrapf error string
  | ProcessEnded string exec_input
  | UnknownSignal int
  | MissingWriter "32 word"
  | UnexpectedExecMessage string exec_input
  | ExitError "32 word" "error option"

subsection \<open>Capability sets\<close>

type_synonym CapSet = "string \<rightharpoonup> bool"

text \<open>
  Modelled from the spec: package \<open>apicaps\<close> is not among the sources. A capability set is
  a mapping from capability id to enabled; \<open>Supports(id)\<close> returns success if the
  capability is present and enabled, otherwise a typed missing-capability failure naming
  \<open>id\<close>.
\<close>

definition Supports :: "CapSet \<Rightarrow> string \<Rightarrow> error option" where
  "Supports caps i = (if caps i = Some True then None else Some (MissingCap i))"

text \<open>
  Modelled from the spec: the capability ids are declared in package \<open>pb\<close>, which is not
  among the sources. The spec names the capabilities the client asks for
  (\<open>ReturnResult\<close>, \<open>ReturnMap\<close>, \<open>ProtoRefArray\<close>, \<open>GatewayEvaluateSolve\<close>, the one that
  guards \<open>StatFile\<close>, \<open>GatewayExec\<close>); each is an id of its own.
\<close>

definition CapReturnResult :: string where "CapReturnResult = ''return''"
definition CapReturnMap :: string where "CapReturnMap = ''returnmap''"
definition CapProtoRefArray :: string where "CapProtoRefArray = ''proto.refarray''"
definition CapGatewayEvaluateSolve :: string where "CapGatewayEvaluateSolve = ''gateway.solve.evaluate''"
definition CapStatFile :: string where "CapStatFile = ''statfile''"
definition CapGatewayExec :: string where "CapGatewayExec = ''gateway.exec''"

subsection \<open>References, results and requests\<close>

text \<open>An LLB definition: the opaque node blobs and the per-node metadata, of which the
  client reads the capability ids (a Go map from id to bool, ranged over by key).\<close>

record OpMetadata =
  md_Caps :: "(string \<times> bool) list"

record Definition =
  df_Def :: "bytes list"
  df_Metadata :: "(string \<times> OpMetadata) list"

text \<open>
  A \<open>client.Reference\<close> is an interface. \<open>reference id def\<close> is this package's
  \<open>*reference\<close> (its back-pointer to the client is left out: the model has one client);
  \<open>ForeignRef t\<close> is a value of any other implementation, of Go type \<open>t\<close>. A \<open>nil\<close>
  interface is \<open>None\<close>.
\<close>

datatype Reference =
    reference (ref_id: string) (ref_def: "Definition option")
  | ForeignRef string

record pbRef =
  pr_Id :: string
  pr_Def :: "Definition option"

text \<open>An attestation, and its wire form. Only the optional ref is read by the client;
  the rest travels as an opaque body.\<close>

record Attestation =
  at_Body :: bytes
  at_Ref :: "Reference option"

record pbAttestation =
  pa_Body :: bytes
  pa_Ref :: "pbRef option"

text \<open>\<open>client.Result\<close>. \<open>Refs\<close> and \<open>Attestations\<close> are Go maps that may be \<open>nil\<close>.\<close>

record Result =
  rs_Ref :: "Reference option"
  rs_Refs :: "(string \<times> Reference option) list option"
  rs_Metadata :: "(string \<times> bytes) list"
  rs_Attestations :: "(string \<times> Attestation list) list option"

text \<open>\<open>pb.Result\<close> with its oneof \<open>Result\<close>.\<close>

datatype pbResultKind =
    Result_RefDeprecated string
  | Result_RefsDeprecated "(string \<times> string) list"
  | Result_Ref pbRef
  | Result_Refs "(string \<times> pbRef) list"
  | Result_unset

record pbResult =
  pb_Result :: pbResultKind
  pb_Metadata :: "(string \<times> bytes) list"
  pb_Attestations :: "(string \<times> pbAttestation list) list option"

record CacheOptionsEntry =
  co_Type :: string
  co_Attrs :: "(string \<times> string) list"

text \<open>\<open>client.SolveRequest\<close>, the caller's request.\<close>

record SolveRequest =
  sq_Definition :: "Definition option"
  sq_Frontend :: string
  sq_FrontendOpt :: "(string \<times> string) list"
  sq_FrontendInputs :: "(string \<times> Definition) list"
  sq_CacheImports :: "CacheOptionsEntry list"
  sq_SourcePolicies :: "bytes list"
  sq_Evaluate :: bool

text \<open>\<open>pb.SolveRequest\<close>, the wire request, with the fields the client sets.\<close>

record pbSolveRequest =
  pq_Definition :: "Definition option"
  pq_Frontend :: string
  pq_FrontendOpt :: "(string \<times> string) list"
  pq_FrontendInputs :: "(string \<times> Definition) list"
  pq_AllowResultReturn :: bool
  pq_AllowResultArrayRef :: bool
  pq_Final :: bool
  pq_ExporterAttr :: bytes
  pq_CacheImports :: "CacheOptionsEntry list"
  pq_Evaluate :: bool
  pq_SourcePolicies :: "bytes list"

record SolveResponse =
  sr_Ref :: string
  sr_Result :: "pbResult option"

record ReturnRequest =
  rr_Result :: "pbResult option"
  rr_Error :: "status option"

record StatFileRequest =
  sf_Path :: string
  sf_Ref :: string

text \<open>A mount of a \<open>NewContainerRequest\<close> and its wire form; the fields the client only
  copies travel as \<open>Opts\<close>.\<close>

record Mount =
  mt_Dest :: string
  mt_ResultID :: string
  mt_Ref :: "Reference option"
  mt_Opts :: bytes

record pbMount =
  om_Dest :: string
  om_ResultID :: string
  om_Opts :: bytes

record NewContainerRequest =
  nc_Mounts :: "Mount list"
  nc_Opts :: bytes

record pbNewContainerRequest =
  nq_ContainerID :: string
  nq_Mounts :: "pbMount list"
  nq_Opts :: bytes

record container =
  ctr_id :: string

text \<open>The unary RPCs the modelled functions issue; the client's \<open>c_wire\<close> lists them,
  oldest first.\<close>

datatype rpc =
    RPC_Solve pbSolveRequest
  | RPC_Return ReturnRequest
  | RPC_StatFile StatFileRequest
  | RPC_NewContainer pbNewContainerRequest

subsection \<open>The environment of the client\<close>

text \<open>
  The daemon answers each unary RPC from the calls issued before it and the request.
  \<open>d_ExecProcess n\<close> is the answer to the \<open>n\<close>-th attempt to open the exec stream
  (\<open>None\<close>: a stream), \<open>d_streamSend\<close> the answer to a write on the stream, given the
  messages written before; \<open>d_pump\<close> is what the inbound pump of the multiplexer returns
  once the stream's context is cancelled.
\<close>

record daemon =
  d_Solve :: "rpc list \<Rightarrow> pbSolveRequest \<Rightarrow> error + SolveResponse"
  d_Return :: "rpc list \<Rightarrow> ReturnRequest \<Rightarrow> error option"
  d_StatFile :: "rpc list \<Rightarrow> StatFileRequest \<Rightarrow> error option"
  d_NewContainer :: "rpc list \<Rightarrow> pbNewContainerRequest \<Rightarrow> error option"
  d_ExecProcess :: "nat \<Rightarrow> error option"
  d_streamSend :: "ExecMessage list \<Rightarrow> ExecMessage \<Rightarrow> error option"
  d_pump :: "error option"

text \<open>
  Functions and constants of packages that are not among the sources, taken as
  parameters: \<open>json.Marshal\<close> on the result metadata; \<open>client.AttestationToPB\<close> and
  \<open>client.AttestationFromPB\<close>; \<open>l_statusOf e\<close> for
  \<open>status.FromError(grpcerrors.ToGRPC(ctx, e)).Proto()\<close>; \<open>l_errorOf st\<close> for
  \<open>grpcerrors.FromGRPC(status.ErrorProto(st))\<close>; the table \<open>sigToName\<close> built from
  \<open>signal.SignalMap\<close> (the empty string where the table has no entry); and the constant
  \<open>pb.UnknownExitStatus\<close>.
\<close>

record library =
  l_jsonMarshal :: "(string \<times> bytes) list \<Rightarrow> error + bytes"
  l_AttestationToPB :: "Attestation \<Rightarrow> error + pbAttestation"
  l_AttestationFromPB :: "pbAttestation \<Rightarrow> error + Attestation"
  l_statusOf :: "error \<Rightarrow> status"
  l_errorOf :: "status \<Rightarrow> error option"
  l_sigToName :: "int \<Rightarrow> string"
  l_UnknownExitStatus :: "32 word"

subsection \<open>The per-process mailbox\<close>

text \<open>
  \<open>procMessageForwarder\<close> holds two unbuffered channels and a \<open>sync.Once\<close>. The model keeps
  what a later operation can observe: whether \<open>done\<close> is closed, whether \<open>closeOnce\<close> has
  run, and whether \<open>msgs\<close> is closed (\<open>msgs\<close> is closed nowhere but inside \<open>closeOnce\<close>).
\<close>

record procMessageForwarder =
  pm_done :: bool
  pm_closeOnce :: bool
  pm_msgs :: bool

definition newProcMessageForwarder :: procMessageForwarder where
  "newProcMessageForwarder = \<lparr>pm_done = False, pm_closeOnce = False, pm_msgs = False\<rparr>"

text \<open>
  What another goroutine offers on the unbuffered channel \<open>msgs\<close> at the moment of a
  \<open>select\<close>: nothing, a blocked receive, or a blocked send of a message.
\<close>

datatype peer = NoPeer | Receiver | Sender "ExecMessage option"

text \<open>
  A \<open>select\<close> statement is modelled by the list of its cases that can proceed, in source
  order, each with the result and the mailbox it leaves. By the Go language
  specification one of them is chosen by uniform pseudo-random selection, and the
  statement blocks when the list is empty. A receive from a closed channel can always
  proceed and yields the zero value (\<open>nil\<close>); a send on a closed channel proceeds by
  panicking; a receive or send on an open unbuffered channel proceeds when a peer is
  blocked on the other side. \<open>ctx_done\<close> says whether the context's \<open>Done\<close> channel is
  closed.
\<close>

datatype send_result = SendCtxDone | SendDone | SendDelivered "ExecMessage option" | SendPanic

definition closeOnce_Do :: "procMessageForwarder \<Rightarrow> procMessageForwarder" where
  "closeOnce_Do b = (if pm_closeOnce b then b else b\<lparr>pm_closeOnce := True, pm_msgs := True\<rparr>)"

definition procMessageForwarder_Send ::
  "bool \<Rightarrow> peer \<Rightarrow> ExecMessage option \<Rightarrow> procMessageForwarder
     \<Rightarrow> (send_result \<times> procMessageForwarder) list" where
  "procMessageForwarder_Send ctx_done p m b =
     (if ctx_done then [(SendCtxDone, b)] else [])
     @ (if pm_done b then [(SendDone, closeOnce_Do b)] else [])
     @ (if pm_msgs b then [(SendPanic, b)]
        else if p = Receiver then [(SendDelivered m, b)] else [])"

definition procMessageForwarder_Recv ::
  "bool \<Rightarrow> peer \<Rightarrow> procMessageForwarder \<Rightarrow> (ExecMessage option \<times> bool) list" where
  "procMessageForwarder_Recv ctx_done p b =
     (if ctx_done then [(None, True)] else [])
     @ (if pm_done b then [(None, False)] else [])
     @ (if pm_msgs b then [(None, True)]
        else (case p of Sender m \<Rightarrow> [(m, True)] | _ \<Rightarrow> []))"

text \<open>\<open>Close\<close>: \<open>close(b.done)\<close> (closing a closed channel panics), then a \<open>Recv\<close> and a
  \<open>Send\<close> of \<open>nil\<close> under \<open>context.Background()\<close>, whose \<open>Done\<close> channel never closes.
  \<open>p1\<close> and \<open>p2\<close> are the peers at the two selects. Each element of the result is one
  possible run.\<close>

definition procMessageForwarder_Close ::
  "peer \<Rightarrow> peer \<Rightarrow> procMessageForwarder \<Rightarrow> procMessageForwarder go list" where
  "procMessageForwarder_Close p1 p2 b =
     (if pm_done b then [Panic]
      else (let b1 = b\<lparr>pm_done := True\<rparr>
            in concat (map (\<lambda>r. map (\<lambda>(s, b2). if s = SendPanic then Panic else Ret b2)
                                   (procMessageForwarder_Send False p2 None b1))
                           (procMessageForwarder_Recv False p1 b1))))"

subsection \<open>The exec multiplexer\<close>

text \<open>
  \<open>messageForwarder\<close>: the mailbox map, whether \<open>stream\<close> is set, the \<open>startOnce\<close> latch
  and the cached \<open>startErr\<close>. The model adds what the claims observe: \<open>mf_opened\<close> counts
  the calls of \<open>client.ExecProcess\<close>, \<open>mf_pump\<close> says whether the inbound pump was
  spawned in the error group, \<open>mf_cancelled\<close> whether \<open>cancel\<close> was called, and
  \<open>mf_sent\<close> lists the messages handed to \<open>stream.Send\<close>, oldest first.
\<close>

record messageForwarder =
  mf_pids :: "string \<rightharpoonup> procMessageForwarder"
  mf_stream :: bool
  mf_startOnce :: bool
  mf_startErr :: "error option"
  mf_opened :: nat
  mf_pump :: bool
  mf_cancelled :: bool
  mf_sent :: "ExecMessage list"

definition newMessageForwarder :: messageForwarder where
  "newMessageForwarder =
     \<lparr>mf_pids = Map.empty, mf_stream = False, mf_startOnce = False, mf_startErr = None,
      mf_opened = 0, mf_pump = False, mf_cancelled = False, mf_sent = []\<rparr>"

text \<open>\<open>Start\<close>. The deferred function stores a non-nil result in \<open>startErr\<close>; the body
  returns the cached error, or runs \<open>startOnce\<close>, whose function opens the stream and, if
  that succeeds, spawns the pump.\<close>

definition messageForwarder_Start ::
  "daemon \<Rightarrow> messageForwarder \<Rightarrow> error option \<times> messageForwarder" where
  "messageForwarder_Start d m =
     (case mf_startErr m of
        Some e \<Rightarrow> (Some e, m\<lparr>mf_startErr := Some e\<rparr>)
      | None \<Rightarrow>
          if mf_startOnce m then (None, m)
          else (let m1 = m\<lparr>mf_startOnce := True, mf_opened := Suc (mf_opened m)\<rparr>
                in case d_ExecProcess d (mf_opened m) of
                     Some e \<Rightarrow> (Some e, m1\<lparr>mf_startErr := Some e\<rparr>)
                   | None \<Rightarrow> (None, m1\<lparr>mf_stream := True, mf_pump := True\<rparr>)))"

text \<open>A sequence of \<open>n\<close> calls of \<open>Start\<close>, one after the other, with their results.\<close>

fun Start_calls :: "daemon \<Rightarrow> nat \<Rightarrow> messageForwarder \<Rightarrow> error option list \<times> messageForwarder" where
  "Start_calls d 0 m = ([], m)"
| "Start_calls d (Suc n) m =
     (let (r, m1) = messageForwarder_Start d m;
          (rs, m2) = Start_calls d n m1
      in (r # rs, m2))"

text \<open>\<open>Send\<close>. A call on a \<open>nil\<close> stream panics.\<close>

definition messageForwarder_Send ::
  "daemon \<Rightarrow> ExecMessage \<Rightarrow> messageForwarder \<Rightarrow> (error option \<times> messageForwarder) go" where
  "messageForwarder_Send d msg m =
     (case mf_pids m (ProcessID msg) of
        None \<Rightarrow> Ret (Some (ProcessEnded (ProcessID msg) (Input msg)), m)
      | Some _ \<Rightarrow>
          if \<not> mf_stream m then Panic
          else Ret (d_streamSend d (mf_sent m) msg, m\<lparr>mf_sent := mf_sent m @ [msg]\<rparr>))"

text \<open>\<open>Release\<close>: cancel, then wait for the error group, which holds the pump if it was
  spawned.\<close>

definition messageForwarder_Release ::
  "daemon \<Rightarrow> messageForwarder \<Rightarrow> error option \<times> messageForwarder" where
  "messageForwarder_Release d m =
     ((if mf_pump m then d_pump d else None), m\<lparr>mf_cancelled := True\<rparr>)"

definition Register :: "string \<Rightarrow> messageForwarder \<Rightarrow> procMessageForwarder \<times> messageForwarder" where
  "Register pid m =
     (newProcMessageForwarder, m\<lparr>mf_pids := (mf_pids m)(pid \<mapsto> newProcMessageForwarder)\<rparr>)"

text \<open>\<open>Deregister\<close>: each element of the result is one possible run of the \<open>Close\<close> it
  calls.\<close>

definition Deregister :: "peer \<Rightarrow> peer \<Rightarrow> string \<Rightarrow> messageForwarder \<Rightarrow> messageForwarder go list" where
  "Deregister p1 p2 pid m =
     (case mf_pids m pid of
        None \<Rightarrow> [Ret m]
      | Some sender \<Rightarrow>
          map (\<lambda>r. case r of Panic \<Rightarrow> Panic
                    | Ret _ \<Rightarrow> Ret (m\<lparr>mf_pids := (mf_pids m)(pid := None)\<rparr>))
              (procMessageForwarder_Close p1 p2 sender))"

subsection \<open>Container processes\<close>

text \<open>\<open>msgWriter.Write\<close>, the writer behind the stdin copier.\<close>

definition msgWriter_Write ::
  "daemon \<Rightarrow> string \<Rightarrow> 32 word \<Rightarrow> bytes \<Rightarrow> messageForwarder
     \<Rightarrow> ((nat \<times> error option) \<times> messageForwarder) go" where
  "msgWriter_Write d processID fd msg m =
     (case messageForwarder_Send d
             \<lparr>ProcessID = processID, Input = File \<lparr>fd_Fd = fd, fd_EOF = False, fd_Data = msg\<rparr>\<rparr> m of
        Panic \<Rightarrow> Panic
      | Ret (Some e, m1) \<Rightarrow> Ret ((0, Some e), m1)
      | Ret (None, m1) \<Rightarrow> Ret ((length msg, None), m1))"

definition containerProcess_Resize ::
  "daemon \<Rightarrow> string \<Rightarrow> 32 word \<Rightarrow> 32 word \<Rightarrow> messageForwarder
     \<Rightarrow> (error option \<times> messageForwarder) go" where
  "containerProcess_Resize d pid cols rows m =
     messageForwarder_Send d
        \<lparr>ProcessID = pid, Input = Resize \<lparr>rz_Rows = rows, rz_Cols = cols\<rparr>\<rparr> m"

definition containerProcess_Signal ::
  "library \<Rightarrow> daemon \<Rightarrow> string \<Rightarrow> int \<Rightarrow> messageForwarder
     \<Rightarrow> (error option \<times> messageForwarder) go" where
  "containerProcess_Signal l d pid sig m =
     (let name = l_sigToName l sig
      in if name = '''' then Ret (Some (UnknownSignal sig), m)
         else messageForwarder_Send d \<lparr>ProcessID = pid, Input = Signal name\<rparr> m)"

text \<open>
  The caller's \<open>Stdout\<close> and \<open>Stderr\<close> are \<open>io.WriteCloser\<close> values of the caller: a
  writer either collects what is written or fails every write with its error.
\<close>

datatype writer = Buffer bytes | Broken error

definition writer_Write :: "writer \<Rightarrow> bytes \<Rightarrow> error + writer" where
  "writer_Write w dt = (case w of Buffer b \<Rightarrow> Inr (Buffer (b @ dt)) | Broken e \<Rightarrow> Inl e)"

text \<open>The variables of the event loop of \<open>container.Start\<close>: \<open>exitError\<close>, whether
  \<open>done\<close> is closed, and the two writers of the request.\<close>

record loop_state =
  ls_exitError :: "error option"
  ls_done :: bool
  ls_Stdout :: "writer option"
  ls_Stderr :: "writer option"

datatype 'a run = Returned 'a | Blocked | Panicked

text \<open>
  The event loop, the third task of \<open>container.Start\<close>. Its input is the list of the
  results of its calls of \<open>msgs.Recv(ctx)\<close>, in order; when the list is used up the next
  \<open>Recv\<close> blocks. \<open>cause\<close> is \<open>context.Cause(ctx)\<close>. Reading \<open>exit.Error.Code\<close> of an exit
  message without a status is a nil dereference.
\<close>

fun eventLoop ::
  "library \<Rightarrow> string \<Rightarrow> error option \<Rightarrow> (ExecMessage option \<times> bool) list \<Rightarrow> loop_state
     \<Rightarrow> error option run \<times> loop_state" where
  "eventLoop l pid cause [] s = (Blocked, s)"
| "eventLoop l pid cause ((msg, ok) # rest) s =
     (if \<not> ok then (Returned (ls_exitError s), s)
      else case msg of
        None \<Rightarrow> (Returned cause, s\<lparr>ls_done := True\<rparr>)
      | Some m \<Rightarrow>
         (case Input m of
            File file \<Rightarrow>
              (let out = (if fd_Fd file = 1 then ls_Stdout s
                          else if fd_Fd file = 2 then ls_Stderr s else None)
               in case out of
                    None \<Rightarrow> (Returned (Some (MissingWriter (fd_Fd file))), s)
                  | Some w \<Rightarrow>
                      if length (fd_Data file) > 0
                      then (case writer_Write w (fd_Data file) of
                              Inl e \<Rightarrow> (Returned (Some e), s)
                            | Inr w' \<Rightarrow>
                                eventLoop l pid cause rest
                                  (if fd_Fd file = 1 then s\<lparr>ls_Stdout := Some w'\<rparr>
                                   else s\<lparr>ls_Stderr := Some w'\<rparr>))
                      else eventLoop l pid cause rest s)
          | Exit exit \<Rightarrow>
              (let s1 = s\<lparr>ls_done := True\<rparr>
               in if ex_Code exit = 0 then eventLoop l pid cause rest s1
                  else (case ex_Error exit of
                          None \<Rightarrow> (Panicked, s1)
                        | Some st \<Rightarrow>
                            (let exitError = l_errorOf l st;
                                 exitError' = (if ex_Code exit \<noteq> l_UnknownExitStatus l
                                               then Some (ExitError (ex_Code exit) exitError)
                                               else exitError)
                             in eventLoop l pid cause rest (s1\<lparr>ls_exitError := exitError'\<rparr>))))
          | Done \<Rightarrow> (Returned (ls_exitError s), s)
          | other \<Rightarrow> (Returned (Some (UnexpectedExecMessage pid other)), s)))"

text \<open>\<open>errgroup.Group.Wait\<close> returns the first non-nil error of its tasks; the argument
  lists the results of the tasks in the order they finish.\<close>

definition egWait :: "error option list \<Rightarrow> error option" where
  "egWait rs = (case filter (\<lambda>r. r \<noteq> None) rs of [] \<Rightarrow> None | r # _ \<Rightarrow> r)"

text \<open>\<open>Wait\<close> on a group whose tasks end as listed: a panic of a task ends the program,
  and \<open>Wait\<close> blocks as long as a task has not returned.\<close>

definition egWait_tasks :: "error option run list \<Rightarrow> error option run" where
  "egWait_tasks ts =
     (if Panicked \<in> set ts then Panicked
      else if Blocked \<in> set ts then Blocked
      else Returned (egWait (List.map_filter
                               (\<lambda>t. case t of Returned r \<Rightarrow> Some r | _ \<Rightarrow> None) ts)))"

definition newLoopState :: "writer option \<Rightarrow> writer option \<Rightarrow> loop_state" where
  "newLoopState out err =
     \<lparr>ls_exitError = None, ls_done = False, ls_Stdout = out, ls_Stderr = err\<rparr>"

text \<open>
  The first task of \<open>container.Start\<close>, the stdin closer: it waits until \<open>done\<close> is
  closed, then closes the stdin pipe reader if there is one, which returns nil. Only the
  event loop closes \<open>done\<close>, so the task returns exactly when the loop has closed it.
\<close>

definition stdin_closer :: "loop_state \<Rightarrow> error option run" where
  "stdin_closer s = (if ls_done s then Returned None else Blocked)"

text \<open>
  \<open>containerProcess.Wait\<close> for a process whose event loop receives \<open>recvs\<close>: the result of
  the error group, which holds the stdin closer, the stdin copier when the caller gave a
  stdin, and the event loop; then the deferred \<open>Deregister\<close>. \<open>copier\<close> is \<open>None\<close> when
  the caller gave no stdin and otherwise how the stdin copier ends (it returns the error
  of its copy or of its final \<open>Send\<close>); \<open>copier_first\<close> says whether it ends before the
  event loop.
\<close>

definition containerProcess_Wait ::
  "library \<Rightarrow> string \<Rightarrow> error option \<Rightarrow> (ExecMessage option \<times> bool) list
     \<Rightarrow> writer option \<Rightarrow> writer option \<Rightarrow> error option run option \<Rightarrow> bool
     \<Rightarrow> peer \<Rightarrow> peer \<Rightarrow> messageForwarder
     \<Rightarrow> (error option \<times> messageForwarder go list) run" where
  "containerProcess_Wait l pid cause recvs out err copier copier_first p1 p2 m =
     (let (lp, s) = eventLoop l pid cause recvs (newLoopState out err);
          cp = (case copier of None \<Rightarrow> [] | Some t \<Rightarrow> [t]);
          tasks = (if copier_first then cp @ [lp, stdin_closer s]
                   else [lp, stdin_closer s] @ cp)
      in case egWait_tasks tasks of
           Returned r \<Rightarrow> Returned (r, Deregister p1 p2 pid m)
         | Blocked \<Rightarrow> Blocked
         | Panicked \<Rightarrow> Panicked)"

text \<open>
  A message before the exit message that the event loop passes over: output for a
  standard stream whose writer the caller gave and which accepts the write.
\<close>

definition is_Buffer :: "writer option \<Rightarrow> bool" where
  "is_Buffer w = (case w of Some (Buffer b) \<Rightarrow> True | _ \<Rightarrow> False)"

definition output_ok :: "writer option \<Rightarrow> writer option \<Rightarrow> ExecMessage \<Rightarrow> bool" where
  "output_ok out err m =
     (case Input m of
        File fm \<Rightarrow> (fd_Fd fm = 1 \<and> is_Buffer out) \<or> (fd_Fd fm = 2 \<and> is_Buffer err)
      | _ \<Rightarrow> False)"

subsection \<open>The client\<close>

text \<open>
  \<open>grpcClient\<close>: the frontend options, the two capability sets, the request cache and
  the exec multiplexer. The stub \<open>client\<close> is the daemon of the environment; \<open>c_wire\<close>
  lists the unary RPCs issued through it. The session id, the product name and the
  worker list are not read by the functions below and are left out.
\<close>

record grpcClient =
  c_opts :: "string \<rightharpoonup> string"
  c_caps :: CapSet
  c_llbCaps :: CapSet
  c_requests :: "string \<rightharpoonup> pbSolveRequest"
  c_execMsgs :: messageForwarder
  c_wire :: "rpc list"

text \<open>
  Modelled from the spec: package \<open>client\<close>, which declares \<open>Result\<close> and its methods, is
  not among the sources. A result holds a single ref or a name-to-ref mapping, a
  metadata mapping, and an attestations mapping from a name to an ordered list of
  attestations. \<open>NewResult\<close> is the empty result, \<open>SetRef\<close> stores the single ref,
  \<open>AddRef\<close> stores a ref under a name, \<open>AddAttestation\<close> appends an attestation to the
  list under a name, and \<open>Result_refs\<close> lists every ref of a result (the refs that
  \<open>EachRef\<close> visits).
\<close>

definition NewResult :: Result where
  "NewResult = \<lparr>rs_Ref = None, rs_Refs = None, rs_Metadata = [], rs_Attestations = None\<rparr>"

definition SetRef :: "Reference \<Rightarrow> Result \<Rightarrow> Result" where
  "SetRef r res = res\<lparr>rs_Ref := Some r\<rparr>"

definition AddRef :: "string \<Rightarrow> Reference option \<Rightarrow> Result \<Rightarrow> Result" where
  "AddRef k r res =
     res\<lparr>rs_Refs := Some (AList.update k r (case rs_Refs res of None \<Rightarrow> [] | Some m \<Rightarrow> m))\<rparr>"

definition AddAttestation :: "string \<Rightarrow> Attestation \<Rightarrow> Result \<Rightarrow> Result" where
  "AddAttestation k a res =
     (let m = (case rs_Attestations res of None \<Rightarrow> [] | Some m \<Rightarrow> m);
          old = (case map_of m k of None \<Rightarrow> [] | Some as \<Rightarrow> as)
      in res\<lparr>rs_Attestations := Some (AList.update k (old @ [a]) m)\<rparr>)"

definition Result_refs :: "Result \<Rightarrow> Reference list" where
  "Result_refs res =
     (case rs_Ref res of None \<Rightarrow> [] | Some r \<Rightarrow> [r])
     @ List.map_filter snd (case rs_Refs res of None \<Rightarrow> [] | Some m \<Rightarrow> m)
     @ List.map_filter at_Ref
         (concat (map snd (case rs_Attestations res of None \<Rightarrow> [] | Some m \<Rightarrow> m)))"

text \<open>\<open>len(m)\<close> of a Go map that may be \<open>nil\<close>.\<close>

definition len_map :: "(string \<times> 'a) list option \<Rightarrow> nat" where
  "len_map m = (case m of None \<Rightarrow> 0 | Some al \<Rightarrow> length (remdups (map fst al)))"

definition newReference :: "pbRef \<Rightarrow> Reference" where
  "newReference r = reference (pr_Id r) (pr_Def r)"

definition convertRef :: "Reference option \<Rightarrow> error + pbRef" where
  "convertRef r =
     (case r of
        None \<Rightarrow> Inr \<lparr>pr_Id = '''', pr_Def = None\<rparr>
      | Some (reference i df) \<Rightarrow> Inr \<lparr>pr_Id = i, pr_Def = df\<rparr>
      | Some (ForeignRef t) \<Rightarrow> Inl (InvalidReturnReferenceType t))"

definition emptyReq :: pbSolveRequest where
  "emptyReq =
     \<lparr>pq_Definition = Some \<lparr>df_Def = [], df_Metadata = []\<rparr>, pq_Frontend = '''',
      pq_FrontendOpt = [], pq_FrontendInputs = [], pq_AllowResultReturn = False,
      pq_AllowResultArrayRef = False, pq_Final = False, pq_ExporterAttr = [],
      pq_CacheImports = [], pq_Evaluate = False, pq_SourcePolicies = []\<rparr>"

definition requestForRef :: "grpcClient \<Rightarrow> Reference option \<Rightarrow> error + pbSolveRequest" where
  "requestForRef c r =
     (case r of
        None \<Rightarrow> Inr emptyReq
      | Some (ForeignRef t) \<Rightarrow> Inl (ReturnReferenceInvalidType t)
      | Some (reference i df) \<Rightarrow>
          if i = '''' then Inr emptyReq
          else (case c_requests c i of
                  None \<Rightarrow> Inl (DidNotFindRequest i)
                | Some req \<Rightarrow> Inr req))"

subsection \<open>Solve\<close>

text \<open>The capability ids of a definition, in the order the two nested loops of \<open>Solve\<close>
  visit them, and the loops themselves: the first failing \<open>Supports\<close> ends them.\<close>

definition Definition_caps :: "Definition \<Rightarrow> string list" where
  "Definition_caps df = concat (map (\<lambda>(dgst, md). map fst (md_Caps md)) (df_Metadata df))"

fun check_caps :: "CapSet \<Rightarrow> string list \<Rightarrow> error option" where
  "check_caps caps [] = None"
| "check_caps caps (i # ids) =
     (case Supports caps i of Some e \<Rightarrow> Some e | None \<Rightarrow> check_caps caps ids)"

text \<open>An option of the ambient frontend options is injected when the request does not
  set it.\<close>

definition inherit_opt ::
  "(string \<rightharpoonup> string) \<Rightarrow> string \<Rightarrow> (string \<times> string) list \<Rightarrow> (string \<times> string) list" where
  "inherit_opt copts k fo =
     (case map_of fo k of
        Some _ \<Rightarrow> fo
      | None \<Rightarrow> (case copts k of Some v \<Rightarrow> AList.update k v fo | None \<Rightarrow> fo))"

text \<open>\<open>reference.StatFile\<close>, of which \<open>Solve\<close> keeps the error only. A reference of another
  implementation is never built by \<open>Solve\<close>; its \<open>StatFile\<close> is not this package's.\<close>

definition reference_StatFile ::
  "daemon \<Rightarrow> string \<Rightarrow> Reference \<Rightarrow> grpcClient \<Rightarrow> error option \<times> grpcClient" where
  "reference_StatFile d path r c =
     (case r of
        ForeignRef t \<Rightarrow> (None, c)
      | reference i df \<Rightarrow>
          (case Supports (c_caps c) CapStatFile of
             Some e \<Rightarrow> (Some e, c)
           | None \<Rightarrow>
               (let rdr = \<lparr>sf_Path = path, sf_Ref = i\<rparr>
                in (d_StatFile d (c_wire c) rdr, c\<lparr>c_wire := c_wire c @ [RPC_StatFile rdr]\<rparr>))))"

text \<open>
  Modelled from the spec: \<open>Result.EachRef\<close> is not among the sources. The fallback calls
  \<open>StatFile(".")\<close> on every ref of the result and surfaces the first error.
\<close>

fun EachRef_StatFile :: "daemon \<Rightarrow> Reference list \<Rightarrow> grpcClient \<Rightarrow> error option \<times> grpcClient" where
  "EachRef_StatFile d [] c = (None, c)"
| "EachRef_StatFile d (r # rs) c =
     (let (e, c1) = reference_StatFile d ''.'' r c;
          (e', c2) = EachRef_StatFile d rs c1
      in (if e \<noteq> None then e else e', c2))"

text \<open>Decoding the oneof of the response into the result.\<close>

definition decode_result :: "pbResultKind \<Rightarrow> Result \<Rightarrow> Result" where
  "decode_result k res =
     (case k of
        Result_RefDeprecated i \<Rightarrow> if i \<noteq> '''' then SetRef (reference i None) res else res
      | Result_RefsDeprecated refs \<Rightarrow>
          foldl (\<lambda>res (k, v). AddRef k (if v \<noteq> '''' then Some (reference v None) else None) res)
                res refs
      | Result_Ref r \<Rightarrow> if pr_Id r \<noteq> '''' then SetRef (newReference r) res else res
      | Result_Refs refs \<Rightarrow>
          foldl (\<lambda>res (k, v). AddRef k (if pr_Id v \<noteq> '''' then Some (newReference v) else None) res)
                res refs
      | Result_unset \<Rightarrow> res)"

text \<open>Decoding the attestations under one key, and under all keys. An error of
  \<open>AttestationFromPB\<close> ends \<open>Solve\<close>; reading \<open>a.Ref.Id\<close> of an attestation without a ref is a
  nil dereference.\<close>

fun decode_attestation_list ::
  "library \<Rightarrow> string \<Rightarrow> pbAttestation list \<Rightarrow> Result \<Rightarrow> (error + Result) go" where
  "decode_attestation_list l p [] res = Ret (Inr res)"
| "decode_attestation_list l p (a # as) res =
     (case l_AttestationFromPB l a of
        Inl e \<Rightarrow> Ret (Inl e)
      | Inr att \<Rightarrow>
          (case pa_Ref a of
             None \<Rightarrow> Panic
           | Some r \<Rightarrow>
               decode_attestation_list l p as
                 (AddAttestation p
                    (if pr_Id r \<noteq> '''' then att\<lparr>at_Ref := Some (newReference r)\<rparr> else att) res)))"

fun decode_attestations ::
  "library \<Rightarrow> (string \<times> pbAttestation list) list \<Rightarrow> Result \<Rightarrow> (error + Result) go" where
  "decode_attestations l [] res = Ret (Inr res)"
| "decode_attestations l ((p, as) # rest) res =
     (case decode_attestation_list l p as res of
        Ret (Inr res') \<Rightarrow> decode_attestations l rest res'
      | other \<Rightarrow> other)"

text \<open>The end of \<open>Solve\<close> with a result: the deferred fallback, when it was scheduled,
  replaces the error by that of \<open>EachRef\<close>.\<close>

definition Solve_return ::
  "daemon \<Rightarrow> bool \<Rightarrow> Result \<Rightarrow> grpcClient \<Rightarrow> (Result option \<times> error option) go \<times> grpcClient" where
  "Solve_return d fallback res c =
     (if fallback
      then (let (e, c') = EachRef_StatFile d (Result_refs res) c in (Ret (Some res, e), c'))
      else (Ret (Some res, None), c))"

text \<open>The wire request that \<open>Solve\<close> builds from the caller's request, and whether the
  evaluate fallback is scheduled.\<close>

definition Solve_request :: "grpcClient \<Rightarrow> SolveRequest \<Rightarrow> pbSolveRequest" where
  "Solve_request c creq =
     (let fo = inherit_opt (c_opts c) ''cache-from''
                 (inherit_opt (c_opts c) ''cache-imports'' (sq_FrontendOpt creq));
          req0 = \<lparr>pq_Definition = sq_Definition creq, pq_Frontend = sq_Frontend creq,
                  pq_FrontendOpt = fo, pq_FrontendInputs = sq_FrontendInputs creq,
                  pq_AllowResultReturn = True, pq_AllowResultArrayRef = True,
                  pq_Final = False, pq_ExporterAttr = [],
                  pq_CacheImports = sq_CacheImports creq, pq_Evaluate = False,
                  pq_SourcePolicies = sq_SourcePolicies creq\<rparr>;
          req1 = (if Supports (c_caps c) CapReturnResult \<noteq> None
                  then req0\<lparr>pq_ExporterAttr := ''{}''\<rparr> else req0)
      in if sq_Evaluate creq \<and> Supports (c_caps c) CapGatewayEvaluateSolve = None
         then req1\<lparr>pq_Evaluate := True\<rparr> else req1)"

definition Solve_fallback :: "grpcClient \<Rightarrow> SolveRequest \<Rightarrow> bool" where
  "Solve_fallback c creq =
     (sq_Evaluate creq \<and> Supports (c_caps c) CapGatewayEvaluateSolve \<noteq> None)"

text \<open>
  \<open>Solve\<close> returns the Go pair \<open>(res, err)\<close> and the client it leaves. (After a panic the
  client is not followed further. The store of an inherited option into a non-nil
  \<open>FrontendOpt\<close> map of the caller is visible to the caller only and is not modelled.)
\<close>

definition Solve ::
  "library \<Rightarrow> daemon \<Rightarrow> SolveRequest \<Rightarrow> grpcClient
     \<Rightarrow> (Result option \<times> error option) go \<times> grpcClient" where
  "Solve l d creq c =
     (case check_caps (c_llbCaps c)
             (case sq_Definition creq of None \<Rightarrow> [] | Some df \<Rightarrow> Definition_caps df) of
        Some e \<Rightarrow> (Ret (None, Some e), c)
      | None \<Rightarrow>
         (let req = Solve_request c creq;
              fallback = Solve_fallback c creq;
              c1 = c\<lparr>c_wire := c_wire c @ [RPC_Solve req]\<rparr>
          in case d_Solve d (c_wire c) req of
               Inl e \<Rightarrow> (Ret (None, Some e), c1)
             | Inr resp \<Rightarrow>
                 (case sr_Result resp of
                    None \<Rightarrow>
                      Solve_return d fallback (SetRef (reference (sr_Ref resp) None) NewResult)
                        (if sr_Ref resp \<noteq> ''''
                         then c1\<lparr>c_requests := (c_requests c1)(sr_Ref resp \<mapsto> req)\<rparr> else c1)
                  | Some pres \<Rightarrow>
                      (let res = decode_result (pb_Result pres)
                                   (NewResult\<lparr>rs_Metadata := pb_Metadata pres\<rparr>)
                       in case pb_Attestations pres of
                            None \<Rightarrow> Solve_return d fallback res c1
                          | Some atts \<Rightarrow>
                              (case decode_attestations l atts res of
                                 Panic \<Rightarrow> (Panic, c1)
                               | Ret (Inl e) \<Rightarrow> (Ret (None, Some e), c1)
                               | Ret (Inr res') \<Rightarrow> Solve_return d fallback res' c1)))))"

subsection \<open>NewContainer\<close>

text \<open>
  \<open>NewContainer\<close>: the capability check, the conversion of the mounts (a mount with a
  \<open>Ref\<close> takes the ref's id as its result id), the \<open>NewContainer\<close> RPC and the start of
  the multiplexer. \<open>i\<close> is the fresh id that \<open>identity.NewID()\<close> returns.
\<close>

fun convert_mounts :: "Mount list \<Rightarrow> error + pbMount list" where
  "convert_mounts [] = Inr []"
| "convert_mounts (m # ms) =
     (case (case mt_Ref m of
              None \<Rightarrow> Inr (mt_ResultID m)
            | Some (reference i df) \<Rightarrow> Inr i
            | Some (ForeignRef t) \<Rightarrow> Inl (UnexpectedReferenceType t)) of
        Inl e \<Rightarrow> Inl e
      | Inr resultID \<Rightarrow>
          (case convert_mounts ms of
             Inl e \<Rightarrow> Inl e
           | Inr rest \<Rightarrow>
               Inr (\<lparr>om_Dest = mt_Dest m, om_ResultID = resultID, om_Opts = mt_Opts m\<rparr> # rest)))"

definition NewContainer ::
  "daemon \<Rightarrow> string \<Rightarrow> NewContainerRequest \<Rightarrow> grpcClient \<Rightarrow> (error + container) \<times> grpcClient" where
  "NewContainer d i req c =
     (case Supports (c_caps c) CapGatewayExec of
        Some e \<Rightarrow> (Inl e, c)
      | None \<Rightarrow>
          (case convert_mounts (nc_Mounts req) of
             Inl e \<Rightarrow> (Inl e, c)
           | Inr mounts \<Rightarrow>
               (let rq = \<lparr>nq_ContainerID = i, nq_Mounts = mounts, nq_Opts = nc_Opts req\<rparr>;
                    c1 = c\<lparr>c_wire := c_wire c @ [RPC_NewContainer rq]\<rparr>
                in case d_NewContainer d (c_wire c) rq of
                     Some e \<Rightarrow> (Inl e, c1)
                   | None \<Rightarrow>
                       (let (e, m) = messageForwarder_Start d (c_execMsgs c1);
                            c2 = c1\<lparr>c_execMsgs := m\<rparr>
                        in case e of
                             Some e' \<Rightarrow> (Inl e', c2)
                           | None \<Rightarrow> (Inr \<lparr>ctr_id = i\<rparr>, c2)))))"

subsection \<open>The Run driver\<close>

text \<open>The loops of the deferred return function over \<open>res.Refs\<close>: a ref that does not
  convert sets \<open>retError\<close> and is skipped.\<close>

definition encode_refs ::
  "(string \<times> Reference option) list \<Rightarrow> error option \<Rightarrow> (string \<times> pbRef) list \<times> error option" where
  "encode_refs refs retError =
     foldl (\<lambda>(m, re) (k, r). case convertRef r of
                                 Inl e \<Rightarrow> (m, Some e)
                               | Inr pbRef \<Rightarrow> (AList.update k pbRef m, re))
           ([], retError) refs"

definition encode_refs_deprecated ::
  "(string \<times> Reference option) list \<Rightarrow> error option \<Rightarrow> (string \<times> string) list \<times> error option" where
  "encode_refs_deprecated refs retError =
     foldl (\<lambda>(m, re) (k, r). case convertRef r of
                                 Inl e \<Rightarrow> (m, Some e)
                               | Inr pbRef \<Rightarrow> (AList.update k (pr_Id pbRef) m, re))
           ([], retError) refs"

text \<open>The loops over \<open>res.Attestations\<close>.\<close>

definition encode_attestations ::
  "library \<Rightarrow> (string \<times> Attestation list) list \<Rightarrow> error option
     \<Rightarrow> (string \<times> pbAttestation list) list \<times> error option" where
  "encode_attestations l atts retError =
     foldl (\<lambda>acc (k, as).
              foldl (\<lambda>(m, re) a.
                       case l_AttestationToPB l a of
                         Inl e \<Rightarrow> (m, Some e)
                       | Inr pbAtt \<Rightarrow>
                           (case convertRef (at_Ref a) of
                              Inl e \<Rightarrow> (m, Some e)
                            | Inr pbRef \<Rightarrow>
                                (AList.update k
                                   ((case map_of m k of None \<Rightarrow> [] | Some old \<Rightarrow> old)
                                    @ [pbAtt\<lparr>pa_Ref := Some pbRef\<rparr>]) m, re)))
                    acc as)
           ([], retError) atts"

text \<open>
  The function deferred first by \<open>Run\<close> in export mode, which therefore runs last: it
  builds the \<open>ReturnRequest\<close> from the result or from \<open>retError\<close>, issues \<open>Return\<close>, and
  takes the error of \<open>Return\<close> only when \<open>retError\<close> is nil.
\<close>

definition Run_export ::
  "library \<Rightarrow> daemon \<Rightarrow> Result option \<Rightarrow> error option \<Rightarrow> grpcClient
     \<Rightarrow> error option \<times> grpcClient" where
  "Run_export l d res retError c =
     (let (result, retError1) =
            (case retError of
               Some e \<Rightarrow> (None, Some e)
             | None \<Rightarrow>
                (let res' = (case res of None \<Rightarrow> NewResult | Some r \<Rightarrow> r);
                     (kind, re1) =
                       (case rs_Refs res' of
                          Some refs \<Rightarrow>
                            if Supports (c_caps c) CapProtoRefArray = None
                            then (let (m, e) = encode_refs refs None in (Result_Refs m, e))
                            else (let (m, e) = encode_refs_deprecated refs None
                                  in (Result_RefsDeprecated m, e))
                        | None \<Rightarrow>
                            (case convertRef (rs_Ref res') of
                               Inl e \<Rightarrow> (Result_unset, Some e)
                             | Inr pbRef \<Rightarrow>
                                 (if Supports (c_caps c) CapProtoRefArray = None
                                  then Result_Ref pbRef
                                  else Result_RefDeprecated (pr_Id pbRef), None)));
                     (atts, re2) =
                       (case rs_Attestations res' of
                          None \<Rightarrow> (None, re1)
                        | Some as \<Rightarrow>
                            (let (m, e) = encode_attestations l as re1 in (Some m, e)));
                     pbRes = \<lparr>pb_Result = kind, pb_Metadata = rs_Metadata res',
                              pb_Attestations = atts\<rparr>
                 in (if re2 = None then Some pbRes else None, re2)));
          req = \<lparr>rr_Result = result, rr_Error = map_option (l_statusOf l) retError1\<rparr>;
          rerr = d_Return d (c_wire c) req;
          c' = c\<lparr>c_wire := c_wire c @ [RPC_Return req]\<rparr>
      in (if rerr \<noteq> None \<and> retError1 = None then rerr else retError1, c'))"

text \<open>
  The legacy path of \<open>Run\<close> (the peer lacks \<open>ReturnResult\<close>). \<open>requestForRef\<close> returns the
  cached pointer, so the two assignments to the request also change the cached request
  (\<open>store_back\<close>); the fresh empty request is in no cache.
\<close>

definition store_back :: "Reference option \<Rightarrow> pbSolveRequest \<Rightarrow> grpcClient \<Rightarrow> grpcClient" where
  "store_back r req c =
     (case r of
        Some (reference i df) \<Rightarrow>
          if i \<noteq> '''' then c\<lparr>c_requests := (c_requests c)(i \<mapsto> req)\<rparr> else c
      | _ \<Rightarrow> c)"

definition Run_legacy ::
  "library \<Rightarrow> daemon \<Rightarrow> Result \<Rightarrow> grpcClient \<Rightarrow> error option \<times> grpcClient" where
  "Run_legacy l d res c =
     (case l_jsonMarshal l (rs_Metadata res) of
        Inl e \<Rightarrow> (Some (Wrapf e ''failed to marshal return metadata''), c)
      | Inr exportedAttrBytes \<Rightarrow>
          (case requestForRef c (rs_Ref res) of
             Inl e \<Rightarrow> (Some (Wrapf e ''failed to find return ref''), c)
           | Inr req0 \<Rightarrow>
               (let req = req0\<lparr>pq_Final := True, pq_ExporterAttr := exportedAttrBytes\<rparr>;
                    c1 = store_back (rs_Ref res) req c;
                    c2 = c1\<lparr>c_wire := c_wire c1 @ [RPC_Solve req]\<rparr>
                in case d_Solve d (c_wire c1) req of
                     Inl e \<Rightarrow> (Some (Wrapf e ''failed to solve''), c2)
                   | Inr resp \<Rightarrow> (None, c2))))"

text \<open>The body of \<open>Run\<close> after the call of the build function, up to its \<open>return\<close>.\<close>

definition Run_body ::
  "library \<Rightarrow> daemon \<Rightarrow> bool \<Rightarrow> Result option \<Rightarrow> error option \<Rightarrow> grpcClient
     \<Rightarrow> error option \<times> grpcClient" where
  "Run_body l d export res err c =
     (case err of
        Some e \<Rightarrow> (Some e, c)
      | None \<Rightarrow>
          (case res of
             None \<Rightarrow> (None, c)
           | Some r \<Rightarrow>
               (case Supports (c_caps c) CapReturnMap of
                  Some e \<Rightarrow>
                    if len_map (rs_Refs r) > 1 then (Some e, c)
                    else if \<not> export then Run_legacy l d r c else (None, c)
                | None \<Rightarrow> if \<not> export then Run_legacy l d r c else (None, c))))"

text \<open>
  \<open>Run\<close>. The build function \<open>f\<close> gets the client and returns the Go pair
  \<open>(res, err)\<close> and the client it leaves (a build function that panics or never returns is
  not modelled). The deferred functions run in reverse order of their \<open>defer\<close>
  statements: first the release of the multiplexer, which assigns to \<open>retError\<close>, then, in
  export mode, \<open>Run_export\<close>.
\<close>

definition Run ::
  "library \<Rightarrow> daemon \<Rightarrow> (grpcClient \<Rightarrow> (Result option \<times> error option) \<times> grpcClient)
     \<Rightarrow> grpcClient \<Rightarrow> error option \<times> grpcClient" where
  "Run l d f c =
     (let export = (Supports (c_caps c) CapReturnResult = None);
          ((res, err), c1) = f c;
          (ret0, c2) = Run_body l d export res err c1;
          (rel, m) = messageForwarder_Release d (c_execMsgs c2);
          c3 = c2\<lparr>c_execMsgs := m\<rparr>;
          retError = (if rel \<noteq> None \<and> ret0 \<noteq> None then rel else ret0)
      in if export then Run_export l d res retError c3 else (retError, c3))"

subsection \<open>Concrete environments and inputs\<close>

text \<open>A library for the examples: status errors are \<open>RpcError\<close> values, the unknown exit
  status is 255, signals 9 and 15 have names.\<close>

definition ex_library :: library where
  "ex_library =
     \<lparr>l_jsonMarshal = (\<lambda>md. Inr (''{'' @ concat (map (\<lambda>(k, v). k @ '':'' @ v @ '';'') md) @ ''}'')),
      l_AttestationToPB = (\<lambda>a. Inr \<lparr>pa_Body = at_Body a, pa_Ref = None\<rparr>),
      l_AttestationFromPB = (\<lambda>a. Inr \<lparr>at_Body = pa_Body a, at_Ref = None\<rparr>),
      l_statusOf = (\<lambda>e. case e of
                           RpcError c msg \<Rightarrow> \<lparr>st_Code = c, st_Message = msg, st_Details = []\<rparr>
                         | _ \<Rightarrow> \<lparr>st_Code = 2, st_Message = ''unknown'', st_Details = []\<rparr>),
      l_errorOf = (\<lambda>st. if st_Code st = 0 then None else Some (RpcError (st_Code st) (st_Message st))),
      l_sigToName = (\<lambda>sig. if sig = 9 then ''KILL'' else if sig = 15 then ''TERM'' else []),
      l_UnknownExitStatus = 255\<rparr>"

text \<open>A daemon on which opening the exec stream fails with \<open>Unavailable\<close> (code 14),
  as does every \<open>Solve\<close>.\<close>

definition ex_daemon_down :: daemon where
  "ex_daemon_down =
     \<lparr>d_Solve = (\<lambda>w q. Inl (RpcError 14 ''down'')), d_Return = (\<lambda>w q. None),
      d_StatFile = (\<lambda>w q. None), d_NewContainer = (\<lambda>w q. None),
      d_ExecProcess = (\<lambda>n. if n = 0 then Some (RpcError 14 ''down'') else None),
      d_streamSend = (\<lambda>w q. None), d_pump = None\<rparr>"

text \<open>A daemon that answers every \<open>Solve\<close> with \<open>{Ref: "r1", Result: nil}\<close> (scenario S1),
  and the same daemon when the exec stream has broken, so that the inbound pump has
  ended with \<open>transport is closing\<close>.\<close>

definition ex_daemon_legacy :: daemon where
  "ex_daemon_legacy =
     \<lparr>d_Solve = (\<lambda>w q. Inr \<lparr>sr_Ref = ''r1'', sr_Result = None\<rparr>), d_Return = (\<lambda>w q. None),
      d_StatFile = (\<lambda>w q. None), d_NewContainer = (\<lambda>w q. None),
      d_ExecProcess = (\<lambda>n. None), d_streamSend = (\<lambda>w q. None), d_pump = None\<rparr>"

definition ex_daemon_broken :: daemon where
  "ex_daemon_broken = ex_daemon_legacy\<lparr>d_pump := Some (RpcError 14 ''transport is closing'')\<rparr>"

text \<open>A client as the constructor leaves it, with the given frontend capabilities and
  one LLB capability.\<close>

definition ex_client :: "CapSet \<Rightarrow> grpcClient" where
  "ex_client caps =
     \<lparr>c_opts = Map.empty, c_caps = caps, c_llbCaps = [''source.image'' \<mapsto> True],
      c_requests = Map.empty, c_execMsgs = newMessageForwarder, c_wire = []\<rparr>"

text \<open>A caller's request with the given definition, and the wire request that a client
  without \<open>ReturnResult\<close> builds from it when the definition is nil.\<close>

definition ex_creq :: "Definition option \<Rightarrow> SolveRequest" where
  "ex_creq df =
     \<lparr>sq_Definition = df, sq_Frontend = ''dockerfile.v0'', sq_FrontendOpt = [],
      sq_FrontendInputs = [], sq_CacheImports = [], sq_SourcePolicies = [],
      sq_Evaluate = False\<rparr>"

definition ex_req :: pbSolveRequest where
  "ex_req =
     \<lparr>pq_Definition = None, pq_Frontend = ''dockerfile.v0'',
      pq_FrontendOpt = [], pq_FrontendInputs = [], pq_AllowResultReturn = True,
      pq_AllowResultArrayRef = True, pq_Final = False, pq_ExporterAttr = ''{}'',
      pq_CacheImports = [], pq_Evaluate = False, pq_SourcePolicies = []\<rparr>"

text \<open>Build functions: one that calls \<open>Solve\<close> once and returns what it returns, one that
  returns a given result, and one that creates a container and then returns a given
  pair.\<close>

definition ex_build_solve ::
  "library \<Rightarrow> daemon \<Rightarrow> SolveRequest \<Rightarrow> grpcClient \<Rightarrow> (Result option \<times> error option) \<times> grpcClient" where
  "ex_build_solve l d creq c =
     (case Solve l d creq c of (Ret r, c') \<Rightarrow> (r, c') | (Panic, c') \<Rightarrow> ((None, None), c'))"

definition ex_build_result :: "Result \<Rightarrow> grpcClient \<Rightarrow> (Result option \<times> error option) \<times> grpcClient" where
  "ex_build_result res c = ((Some res, None), c)"

definition ex_build_exec ::
  "daemon \<Rightarrow> Result option \<times> error option \<Rightarrow> grpcClient
     \<Rightarrow> (Result option \<times> error option) \<times> grpcClient" where
  "ex_build_exec d r c = (r, snd (NewContainer d ''ctr1'' \<lparr>nc_Mounts = [], nc_Opts = []\<rparr> c))"


text \<open>A result with two refs.\<close>

definition ex_two_refs :: Result where
  "ex_two_refs =
     \<lparr>rs_Ref = None,
      rs_Refs = Some [(''linux/amd64'', Some (reference ''x'' None)),
                      (''linux/arm64'', Some (reference ''y'' None))],
      rs_Metadata = [], rs_Attestations = None\<rparr>"

subsection \<open>Properties of the environment decoder\<close>

lemma SplitN2_eq:
  assumes "CHR ''='' \<notin> set a"
  shows "SplitN2 (a @ CHR ''='' # b) = [a, b]"
proof -
  have all: "\<And>x. x \<in> set a \<Longrightarrow> x \<noteq> CHR ''=''" using assms by auto
  have t: "takeWhile (\<lambda>c. c \<noteq> CHR ''='') (a @ CHR ''='' # b) = a"
    using all by (simp add: takeWhile_append2)
  have d: "dropWhile (\<lambda>c. c \<noteq> CHR ''='') (a @ CHR ''='' # b) = CHR ''='' # b"
    using all by (simp add: dropWhile_append2)
  show ?thesis by (simp add: SplitN2_def t d)
qed

lemma SplitN2_none:
  "CHR ''='' \<notin> set a \<Longrightarrow> SplitN2 a = [a]"
  by (simp add: SplitN2_def)

lemma digit_not_eq: "d < 10 \<Longrightarrow> digit d \<noteq> CHR ''=''"
proof -
  assume "d < 10"
  then have "d \<in> {0, 1, 2, 3, 4, 5, 6, 7, 8, 9}" by auto
  then show ?thesis by (auto simp: digit_def)
qed

lemma Itoa_no_eq: "CHR ''='' \<notin> set (Itoa n)"
proof (induction n rule: Itoa.induct)
  case (1 n)
  show ?case
  proof (cases "n < 10")
    case True
    then show ?thesis using digit_not_eq [of n] by (subst Itoa.simps) simp
  next
    case False
    have "n mod 10 < 10" by simp
    then have "digit (n mod 10) \<noteq> CHR ''=''" by (rule digit_not_eq)
    with False 1 show ?thesis by (subst Itoa.simps) auto
  qed
qed

lemma frontendPrefix_no_eq: "CHR ''='' \<notin> set frontendPrefix"
  by (simp add: frontendPrefix_def)

lemma HasPrefix_append: "HasPrefix (p @ s) p"
  by (simp add: HasPrefix_def)

lemma opts_entry_encoded:
  assumes "CHR ''='' \<notin> set name" "HasPrefix name frontendPrefix" "CHR ''='' \<notin> set k"
  shows "opts_entry m (name @ CHR ''='' # k @ CHR ''='' # v) = m(k \<mapsto> v)"
proof -
  have 1: "SplitN2 (name @ CHR ''='' # k @ CHR ''='' # v) = [name, k @ CHR ''='' # v]"
    using assms(1) by (rule SplitN2_eq)
  have 2: "SplitN2 (k @ CHR ''='' # v) = [k, v]"
    using assms(3) by (rule SplitN2_eq)
  show ?thesis
    using assms(2) by (simp add: opts_entry_def 1 2)
qed

lemma opts_entry_malformed:
  assumes "CHR ''='' \<notin> set name" "HasPrefix name frontendPrefix" "CHR ''='' \<notin> set v"
  shows "opts_entry m (name @ CHR ''='' # v) = m(v \<mapsto> [])"
proof -
  have 1: "SplitN2 (name @ CHR ''='' # v) = [name, v]"
    using assms(1) by (rule SplitN2_eq)
  have 2: "SplitN2 v = [v]"
    using assms(3) by (rule SplitN2_none)
  show ?thesis
    using assms(2) by (simp add: opts_entry_def 1 2)
qed

lemma map_add_update_fresh:
  assumes "k \<notin> dom n"
  shows "m(k \<mapsto> v) ++ n = m ++ n(k \<mapsto> v)"
proof (rule ext)
  fix x
  show "(m(k \<mapsto> v) ++ n) x = (m ++ n(k \<mapsto> v)) x"
    using assms by (cases "n x") (auto simp: map_add_def)
qed

lemma foldl_encoded:
  assumes "distinct (map fst kvs)" "\<forall>(k, v) \<in> set kvs. CHR ''='' \<notin> set k"
  shows "foldl opts_entry m (RunFrontendOptEnv_from i kvs) = m ++ map_of kvs"
  using assms
proof (induction kvs arbitrary: m i)
  case Nil
  then show ?case by simp
next
  case (Cons kv kvs)
  obtain k v where kv: "kv = (k, v)" by (cases kv)
  have k: "CHR ''='' \<notin> set k" using Cons.prems kv by simp
  have n: "CHR ''='' \<notin> set (frontendPrefix @ Itoa i)"
    using frontendPrefix_no_eq Itoa_no_eq by simp
  have p: "HasPrefix (frontendPrefix @ Itoa i) frontendPrefix" by (rule HasPrefix_append)
  have "opts_entry m ((frontendPrefix @ Itoa i) @ CHR ''='' # k @ CHR ''='' # v) = m(k \<mapsto> v)"
    using n p k by (rule opts_entry_encoded)
  then have step: "opts_entry m (frontendPrefix @ Itoa i @ ''='' @ k @ ''='' @ v) = m(k \<mapsto> v)"
    by simp
  have d: "distinct (map fst kvs)" using Cons.prems by simp
  have rest: "\<forall>(k, v) \<in> set kvs. CHR ''='' \<notin> set k" using Cons.prems by simp
  have notin: "k \<notin> dom (map_of kvs)"
    using Cons.prems kv by (simp add: dom_map_of_conv_image_fst)
  have "foldl opts_entry m (RunFrontendOptEnv_from i (kv # kvs))
        = foldl opts_entry (m(k \<mapsto> v)) (RunFrontendOptEnv_from (Suc i) kvs)"
    unfolding kv RunFrontendOptEnv_from.simps foldl_Cons step ..
  also have "\<dots> = m(k \<mapsto> v) ++ map_of kvs"
    using d rest by (rule Cons.IH)
  also have "\<dots> = m ++ (map_of kvs)(k \<mapsto> v)"
    using notin by (rule map_add_update_fresh)
  also have "\<dots> = m ++ map_of (kv # kvs)"
    by (simp add: kv)
  finally show ?case .
qed

lemma foldl_opts_untouched:
  "\<forall>e \<in> set post. \<forall>m'. opts_entry m' e v = m' v \<Longrightarrow> foldl opts_entry m post v = m v"
  by (induction post arbitrary: m) simp_all

text \<open>
  Claim C8, as amended. For every finite map whose keys contain no \<open>=\<close>, encoding it as
  \<open>BUILDKIT_FRONTEND_OPT_*\<close> variables whose values have the form \<open>name=value\<close> and
  decoding with \<open>opts\<close> yields the original map; and for a variable with the prefix
  whose value lacks an \<open>=\<close>, the decoder stores that value as a key with the empty string
  as its value, which the decoded map holds unless a later variable stores under the same
  key.
\<close>

theorem C8_opts_roundtrip:
  "(distinct (map fst kvs) \<and> (\<forall>(k, v) \<in> set kvs. CHR ''='' \<notin> set k)
      \<longrightarrow> opts (RunFrontendOptEnv kvs) = map_of kvs)
   \<and> (CHR ''='' \<notin> set name \<and> HasPrefix name frontendPrefix \<and> CHR ''='' \<notin> set v
      \<longrightarrow> opts_entry m (name @ ''='' @ v) = m(v \<mapsto> '''')
          \<and> ((\<forall>e \<in> set post. \<forall>m'. opts_entry m' e v = m' v)
               \<longrightarrow> opts (pre @ [name @ ''='' @ v] @ post) v = Some ''''))"
proof (intro conjI impI)
  assume a: "distinct (map fst kvs) \<and> (\<forall>(k, v) \<in> set kvs. CHR ''='' \<notin> set k)"
  then have "foldl opts_entry Map.empty (RunFrontendOptEnv_from 0 kvs) = Map.empty ++ map_of kvs"
    by (intro foldl_encoded) auto
  then show "opts (RunFrontendOptEnv kvs) = map_of kvs"
    by (simp add: opts_def RunFrontendOptEnv_def)
next
  assume a: "CHR ''='' \<notin> set name \<and> HasPrefix name frontendPrefix \<and> CHR ''='' \<notin> set v"
  have e: "opts_entry m' (name @ CHR ''='' # v) = m'(v \<mapsto> [])" for m'
    using a by (intro opts_entry_malformed) auto
  show "opts_entry m (name @ ''='' @ v) = m(v \<mapsto> '''')" using e by simp
  assume "\<forall>e \<in> set post. \<forall>m'. opts_entry m' e v = m' v"
  then have "foldl opts_entry ((foldl opts_entry Map.empty pre)(v \<mapsto> [])) post v = Some []"
    by (simp add: foldl_opts_untouched)
  then show "opts (pre @ [name @ ''='' @ v] @ post) v = Some ''''"
    by (simp add: opts_def e)
qed

theorem C8_opts_roundtrip_witness:
  "opts (RunFrontendOptEnv [(''target'', ''prod''), (''no-cache'', '''')])
     = map_of [(''target'', ''prod''), (''no-cache'', '''')]
   \<and> opts ([''PATH=/bin''] @ [''BUILDKIT_FRONTEND_OPT_0'' @ ''='' @ ''flag'']
             @ [''BUILDKIT_FRONTEND_OPT_1=x=y'']) ''flag'' = Some ''''"
  using C8_opts_roundtrip [where kvs = "[(''target'', ''prod''), (''no-cache'', '''')]"
          and name = "''BUILDKIT_FRONTEND_OPT_0''" and v = "''flag''" and pre = "[''PATH=/bin'']"
          and post = "[''BUILDKIT_FRONTEND_OPT_1=x=y'']"]
  by (simp add: HasPrefix_def frontendPrefix_def opts_entry_def SplitN2_def)

lemma Itoa_0: "Itoa 0 = ''0''"
  by (subst Itoa.simps) (simp add: digit_def)

text \<open>
  Claim C8 as stated fails for a key that contains \<open>=\<close>: the map with the one entry
  \<open>a=b \<mapsto> c\<close> is encoded as \<open>BUILDKIT_FRONTEND_OPT_0=a=b=c\<close> and decoded as
  \<open>a \<mapsto> b=c\<close>.
\<close>

theorem C8_roundtrip_counterexample:
  "opts (RunFrontendOptEnv [(''a=b'', ''c'')]) \<noteq> map_of [(''a=b'', ''c'')]"
proof
  assume eq: "opts (RunFrontendOptEnv [(''a=b'', ''c'')]) = map_of [(''a=b'', ''c'')]"
  have "opts (RunFrontendOptEnv [(''a=b'', ''c'')]) ''a'' = Some ''b=c''"
    by (simp add: opts_def RunFrontendOptEnv_def opts_entry_def SplitN2_def HasPrefix_def
        frontendPrefix_def Itoa_0)
  moreover have "map_of [(''a=b'', ''c'')] ''a'' = None" by simp
  ultimately show False using eq by simp
qed

subsection \<open>Properties of the exec multiplexer\<close>

lemma Start_started:
  "mf_startOnce m \<Longrightarrow> messageForwarder_Start d m = (mf_startErr m, m)"
  by (cases "mf_startErr m") (simp_all add: messageForwarder_Start_def)

lemma Start_calls_started:
  "mf_startOnce m \<Longrightarrow> Start_calls d n m = (replicate n (mf_startErr m), m)"
  by (induction n) (simp_all add: Start_started)

lemma Start_first:
  "messageForwarder_Start d newMessageForwarder = (r, m) \<Longrightarrow>
     r = d_ExecProcess d 0 \<and> mf_startOnce m \<and> mf_startErr m = d_ExecProcess d 0 \<and> mf_opened m = 1
     \<and> mf_stream m = (d_ExecProcess d 0 = None)"
  by (cases "d_ExecProcess d 0")
     (auto simp: messageForwarder_Start_def newMessageForwarder_def Let_def)

text \<open>
  Claim C7. For every sequence of \<open>n\<close> calls of \<open>Start\<close> on a new multiplexer, every call
  returns what the first attempt to open the stream returned (the same error if it
  failed, nil if it succeeded), and \<open>ExecProcess\<close> is called at most once: exactly once,
  by the first call, when there is a call at all.
\<close>

theorem C7_Start_once:
  "(case Start_calls d n newMessageForwarder of
      (rs, m) \<Rightarrow>
        rs = replicate n (d_ExecProcess d 0)
        \<and> mf_opened m \<le> 1
        \<and> (0 < n \<longrightarrow> mf_opened m = 1 \<and> mf_startErr m = d_ExecProcess d 0))"
proof (cases n)
  case 0
  then show ?thesis by (simp add: newMessageForwarder_def)
next
  case (Suc k)
  obtain r m1 where s: "messageForwarder_Start d newMessageForwarder = (r, m1)"
    by (cases "messageForwarder_Start d newMessageForwarder")
  note f = Start_first [OF s]
  have "Start_calls d k m1 = (replicate k (mf_startErr m1), m1)"
    using f by (simp add: Start_calls_started)
  then show ?thesis using Suc s f by simp
qed

theorem C7_Start_once_witness:
  "fst (Start_calls ex_daemon_down 3 newMessageForwarder)
     = [Some (RpcError 14 ''down''), Some (RpcError 14 ''down''), Some (RpcError 14 ''down'')]
   \<and> mf_opened (snd (Start_calls ex_daemon_down 3 newMessageForwarder)) = 1"
  using C7_Start_once [where d = ex_daemon_down and n = 3]
  by (simp add: split_beta numeral_3_eq_3 ex_daemon_down_def)

lemma Send_unregistered:
  "mf_pids m (ProcessID msg) = None \<Longrightarrow>
     messageForwarder_Send d msg m = Ret (Some (ProcessEnded (ProcessID msg) (Input msg)), m)"
  by (simp add: messageForwarder_Send_def)

lemma Deregister_removes:
  "Ret m' \<in> set (Deregister p1 p2 pid m) \<Longrightarrow> mf_pids m' pid = None"
  by (cases "mf_pids m pid") (auto simp: Deregister_def split: go.splits)

text \<open>
  Claim C9. For a process id that is not registered in the mailbox map, \<open>Send\<close> returns
  the error naming the process id and leaves the multiplexer as it was, so nothing is
  written to the stream; hence \<open>Resize\<close>, \<open>Signal\<close> and a stdin write return an error
  (for \<open>Signal\<close>, the unknown-signal error when the signal has no name). Every run of
  \<open>Deregister\<close> that returns leaves the process id unregistered.
\<close>

theorem C9_Send_unregistered:
  "(mf_pids m pid = None \<longrightarrow>
      messageForwarder_Send d \<lparr>ProcessID = pid, Input = inp\<rparr> m
        = Ret (Some (ProcessEnded pid inp), m)
      \<and> containerProcess_Resize d pid cols rows m
        = Ret (Some (ProcessEnded pid (Resize \<lparr>rz_Rows = rows, rz_Cols = cols\<rparr>)), m)
      \<and> containerProcess_Signal l d pid sig m
        = Ret (Some (if l_sigToName l sig = '''' then UnknownSignal sig
                     else ProcessEnded pid (Signal (l_sigToName l sig))), m)
      \<and> msgWriter_Write d pid fd dt m
        = Ret ((0, Some (ProcessEnded pid (File \<lparr>fd_Fd = fd, fd_EOF = False, fd_Data = dt\<rparr>))), m))
   \<and> (\<forall>m' \<in> set (Deregister p1 p2 pid m). \<forall>m''. m' = Ret m'' \<longrightarrow> mf_pids m'' pid = None)"
proof (intro conjI impI ballI allI)
  fix m' m''
  assume "m' \<in> set (Deregister p1 p2 pid m)" "m' = Ret m''"
  then show "mf_pids m'' pid = None" using Deregister_removes by blast
qed (simp_all add: Send_unregistered containerProcess_Resize_def containerProcess_Signal_def
       msgWriter_Write_def Let_def)

theorem C9_Send_unregistered_witness:
  "mf_pids newMessageForwarder ''c:p'' = None
   \<and> containerProcess_Signal ex_library ex_daemon_down ''c:p'' 9 newMessageForwarder
       = Ret (Some (ProcessEnded ''c:p'' (Signal ''KILL'')), newMessageForwarder)
   \<and> Deregister NoPeer NoPeer ''c:p'' (snd (Register ''c:p'' newMessageForwarder))
       = [Ret newMessageForwarder]
   \<and> mf_pids newMessageForwarder ''c:p'' = None"
  using C9_Send_unregistered [where m = newMessageForwarder and pid = "''c:p''"
           and l = ex_library and d = ex_daemon_down and sig = 9]
        C9_Send_unregistered [where m = "snd (Register ''c:p'' newMessageForwarder)"
           and pid = "''c:p''" and ?p1.0 = NoPeer and ?p2.0 = NoPeer]
  by (simp add: newMessageForwarder_def ex_library_def Register_def Deregister_def
        procMessageForwarder_Close_def procMessageForwarder_Recv_def
        procMessageForwarder_Send_def newProcMessageForwarder_def closeOnce_Do_def)

subsection \<open>Properties of the event loop\<close>

lemma output_ok_cong:
  "is_Buffer o1 = is_Buffer o2 \<Longrightarrow> is_Buffer e1 = is_Buffer e2 \<Longrightarrow> output_ok o1 e1 = output_ok o2 e2"
  by (rule ext) (simp add: output_ok_def split: exec_input.splits)

lemma eventLoop_outputs:
  assumes "list_all (output_ok (ls_Stdout s) (ls_Stderr s)) ms"
  shows "\<exists>s'. eventLoop l pid cause (map (\<lambda>m. (Some m, True)) ms @ rest) s
                = eventLoop l pid cause rest s'
              \<and> ls_exitError s' = ls_exitError s \<and> ls_done s' = ls_done s"
  using assms
proof (induction ms arbitrary: s)
  case Nil
  then show ?case by auto
next
  case (Cons m ms)
  from Cons.prems obtain fm where f: "Input m = File fm"
    and ok: "(fd_Fd fm = 1 \<and> is_Buffer (ls_Stdout s)) \<or> (fd_Fd fm = 2 \<and> is_Buffer (ls_Stderr s))"
    by (auto simp: output_ok_def split: exec_input.splits)
  have "\<exists>s1. eventLoop l pid cause ((Some m, True) # map (\<lambda>m. (Some m, True)) ms @ rest) s
               = eventLoop l pid cause (map (\<lambda>m. (Some m, True)) ms @ rest) s1
             \<and> ls_exitError s1 = ls_exitError s \<and> ls_done s1 = ls_done s
             \<and> is_Buffer (ls_Stdout s1) = is_Buffer (ls_Stdout s)
             \<and> is_Buffer (ls_Stderr s1) = is_Buffer (ls_Stderr s)"
  proof (cases "fd_Fd fm = 1 \<and> is_Buffer (ls_Stdout s)")
    case True
    then obtain b where b: "ls_Stdout s = Some (Buffer b)"
      by (auto simp: is_Buffer_def split: option.splits writer.splits)
    show ?thesis
    proof (cases "fd_Data fm = []")
      case True
      then show ?thesis using f b \<open>fd_Fd fm = 1 \<and> _\<close> by (intro exI [of _ s]) simp
    next
      case False
      then show ?thesis using f b \<open>fd_Fd fm = 1 \<and> _\<close>
        by (intro exI [of _ "s\<lparr>ls_Stdout := Some (Buffer (b @ fd_Data fm))\<rparr>"])
           (simp add: writer_Write_def is_Buffer_def)
    qed
  next
    case False
    with ok have 2: "fd_Fd fm = 2" "is_Buffer (ls_Stderr s)" by auto
    then obtain b where b: "ls_Stderr s = Some (Buffer b)"
      by (auto simp: is_Buffer_def split: option.splits writer.splits)
    show ?thesis
    proof (cases "fd_Data fm = []")
      case True
      then show ?thesis using f b 2 by (intro exI [of _ s]) simp
    next
      case False
      then show ?thesis using f b 2
        by (intro exI [of _ "s\<lparr>ls_Stderr := Some (Buffer (b @ fd_Data fm))\<rparr>"])
           (simp add: writer_Write_def is_Buffer_def)
    qed
  qed
  then obtain s1 where s1: "eventLoop l pid cause ((Some m, True) # map (\<lambda>m. (Some m, True)) ms @ rest) s
               = eventLoop l pid cause (map (\<lambda>m. (Some m, True)) ms @ rest) s1"
     "ls_exitError s1 = ls_exitError s" "ls_done s1 = ls_done s"
     "is_Buffer (ls_Stdout s1) = is_Buffer (ls_Stdout s)"
     "is_Buffer (ls_Stderr s1) = is_Buffer (ls_Stderr s)" by blast
  have "list_all (output_ok (ls_Stdout s1) (ls_Stderr s1)) ms"
    using Cons.prems output_ok_cong [OF s1(4) s1(5)] by simp
  from Cons.IH [OF this] obtain s' where
    "eventLoop l pid cause (map (\<lambda>m. (Some m, True)) ms @ rest) s1 = eventLoop l pid cause rest s'"
    "ls_exitError s' = ls_exitError s1" "ls_done s' = ls_done s1" by blast
  then show ?case using s1 by (intro exI [of _ s']) simp
qed

lemma eventLoop_Exit_Done:
  assumes "ls_exitError s = None" "Input m1 = Exit ex" "Input m2 = Done"
    and "ex_Code ex = 0 \<or> ex_Error ex = Some st"
  shows "\<exists>s'. eventLoop l pid cause ((Some m1, True) # (Some m2, True) # rest) s
              = (Returned (if ex_Code ex = 0 then None
                           else if ex_Code ex \<noteq> l_UnknownExitStatus l
                                then Some (ExitError (ex_Code ex) (l_errorOf l st))
                                else l_errorOf l st), s')
            \<and> ls_done s'"
proof (cases "ex_Code ex = 0")
  case True
  then show ?thesis using assms(1-3) by (intro exI [of _ "s\<lparr>ls_done := True\<rparr>"]) simp
next
  case False
  then have st: "ex_Error ex = Some st" using assms(4) by simp
  show ?thesis
    using False st assms(1-3)
    by (intro exI [of _ "s\<lparr>ls_done := True,
          ls_exitError := (if ex_Code ex \<noteq> l_UnknownExitStatus l
                           then Some (ExitError (ex_Code ex) (l_errorOf l st))
                           else l_errorOf l st)\<rparr>"])
       (simp add: Let_def)
qed

lemma egWait_tasks_nil:
  assumes "copier = None \<or> copier = Some (Returned None)"
  shows "egWait_tasks (if copier_first
                       then (case copier of None \<Rightarrow> [] | Some t \<Rightarrow> [t]) @ [Returned r, Returned None]
                       else [Returned r, Returned None] @ (case copier of None \<Rightarrow> [] | Some t \<Rightarrow> [t]))
         = Returned r"
  using assms by (cases r) (auto simp: egWait_tasks_def egWait_def List.map_filter_simps)

text \<open>
  Claim C3, as amended. When the event loop receives \<open>Exit\<close> followed by \<open>Done\<close> (after any
  output messages it could write), the exit message carries a status proto if its code
  is not 0, and the stdin copier, if the caller gave a stdin, returns nil, \<open>Wait\<close>
  returns nil if the exit code is 0; the error built from the status proto wrapped in
  \<open>ExitError\<close> with the exit code if the code is neither 0 nor \<open>UnknownExitStatus\<close>; and
  the bare error built from the status proto if the code is \<open>UnknownExitStatus\<close>.
\<close>

theorem C3_Wait_Exit_Done:
  assumes "list_all (output_ok out err) ms"
    and "Input m1 = Exit ex" and "Input m2 = Done"
    and "ex_Code ex = 0 \<or> ex_Error ex = Some st"
    and "copier = None \<or> copier = Some (Returned None)"
  shows "containerProcess_Wait l pid cause
           (map (\<lambda>m. (Some m, True)) ms @ (Some m1, True) # (Some m2, True) # rest)
           out err copier copier_first p1 p2 mf
         = Returned (if ex_Code ex = 0 then None
                     else if ex_Code ex \<noteq> l_UnknownExitStatus l
                          then Some (ExitError (ex_Code ex) (l_errorOf l st))
                          else l_errorOf l st,
                     Deregister p1 p2 pid mf)"
proof -
  let ?s = "newLoopState out err"
  let ?v = "if ex_Code ex = 0 then None
            else if ex_Code ex \<noteq> l_UnknownExitStatus l
                 then Some (ExitError (ex_Code ex) (l_errorOf l st))
                 else l_errorOf l st"
  have "list_all (output_ok (ls_Stdout ?s) (ls_Stderr ?s)) ms"
    using assms(1) by (simp add: newLoopState_def)
  from eventLoop_outputs [OF this] obtain s' where
    s': "eventLoop l pid cause
           (map (\<lambda>m. (Some m, True)) ms @ (Some m1, True) # (Some m2, True) # rest) ?s
         = eventLoop l pid cause ((Some m1, True) # (Some m2, True) # rest) s'"
    and e: "ls_exitError s' = ls_exitError ?s" by blast
  have n: "ls_exitError s' = None" using e by (simp add: newLoopState_def)
  from eventLoop_Exit_Done [OF n assms(2) assms(3) assms(4), of l pid cause rest]
  obtain s'' where
    r: "eventLoop l pid cause ((Some m1, True) # (Some m2, True) # rest) s' = (Returned ?v, s'')"
    and d: "ls_done s''" by blast
  have c: "stdin_closer s'' = Returned None" using d by (simp add: stdin_closer_def)
  note w = egWait_tasks_nil [OF assms(5), of copier_first ?v]
  show ?thesis
    unfolding containerProcess_Wait_def s' r Let_def prod.case c w by simp
qed

theorem C3_Wait_Exit_Done_witness:
  "containerProcess_Wait ex_library ''c:p'' None
     [(Some \<lparr>ProcessID = ''c:p'', Input = File \<lparr>fd_Fd = 2, fd_EOF = False, fd_Data = ''bad''\<rparr>\<rparr>, True),
      (Some \<lparr>ProcessID = ''c:p'', Input = Exit \<lparr>ex_Code = 3,
          ex_Error = Some \<lparr>st_Code = 2, st_Message = ''m'', st_Details = []\<rparr>\<rparr>\<rparr>, True),
      (Some \<lparr>ProcessID = ''c:p'', Input = Done\<rparr>, True)]
     (Some (Buffer [])) (Some (Buffer [])) (Some (Returned None)) True
     NoPeer NoPeer newMessageForwarder
   = Returned (Some (ExitError 3 (Some (RpcError 2 ''m''))), [Ret newMessageForwarder])"
  using C3_Wait_Exit_Done [where l = ex_library and pid = "''c:p''" and cause = None
      and ms = "[\<lparr>ProcessID = ''c:p'', Input = File \<lparr>fd_Fd = 2, fd_EOF = False, fd_Data = ''bad''\<rparr>\<rparr>]"
      and ?m1.0 = "\<lparr>ProcessID = ''c:p'', Input = Exit \<lparr>ex_Code = 3,
          ex_Error = Some \<lparr>st_Code = 2, st_Message = ''m'', st_Details = []\<rparr>\<rparr>\<rparr>"
      and ex = "\<lparr>ex_Code = 3, ex_Error = Some \<lparr>st_Code = 2, st_Message = ''m'', st_Details = []\<rparr>\<rparr>"
      and st = "\<lparr>st_Code = 2, st_Message = ''m'', st_Details = []\<rparr>"
      and ?m2.0 = "\<lparr>ProcessID = ''c:p'', Input = Done\<rparr>"
      and rest = "[]" and out = "Some (Buffer [])" and err = "Some (Buffer [])"
      and copier = "Some (Returned None)" and copier_first = True
      and ?p1.0 = NoPeer and ?p2.0 = NoPeer and mf = newMessageForwarder]
  by (simp add: output_ok_def is_Buffer_def ex_library_def Deregister_def newMessageForwarder_def)

text \<open>
  Claim C3 as stated fails in two ways. The event loop receives \<open>Exit\<close> with code 0 and
  then \<open>Done\<close>, but the stdin copier has returned the error of its \<open>Send\<close>: \<open>Wait\<close> returns
  that error, the first of the group, and not nil. And for an \<open>Exit\<close> with code 3 that
  carries no status proto the loop dereferences nil, so \<open>Wait\<close> does not return an
  \<open>ExitError\<close>.
\<close>

theorem C3_Wait_counterexample:
  "containerProcess_Wait ex_library ''c:p'' None
     [(Some \<lparr>ProcessID = ''c:p'', Input = Exit \<lparr>ex_Code = 0, ex_Error = None\<rparr>\<rparr>, True),
      (Some \<lparr>ProcessID = ''c:p'', Input = Done\<rparr>, True)]
     None None (Some (Returned (Some (RpcError 14 ''transport is closing'')))) False
     NoPeer NoPeer newMessageForwarder
   = Returned (Some (RpcError 14 ''transport is closing''), [Ret newMessageForwarder])
   \<and> containerProcess_Wait ex_library ''c:p'' None
     [(Some \<lparr>ProcessID = ''c:p'', Input = Exit \<lparr>ex_Code = 3, ex_Error = None\<rparr>\<rparr>, True),
      (Some \<lparr>ProcessID = ''c:p'', Input = Done\<rparr>, True)]
     None None None False NoPeer NoPeer newMessageForwarder
   = Panicked"
  by (simp add: containerProcess_Wait_def newLoopState_def stdin_closer_def egWait_tasks_def
        egWait_def List.map_filter_simps Let_def Deregister_def newMessageForwarder_def)

text \<open>Where the event loop ends with \<open>done\<close> still open, here on a \<open>Done\<close> that no \<open>Exit\<close>
  preceded, the stdin closer never returns and \<open>Wait\<close> blocks.\<close>

lemma Wait_blocks_with_done_open:
  "containerProcess_Wait l pid cause [(Some \<lparr>ProcessID = p, Input = Done\<rparr>, True)]
     out err None copier_first p1 p2 mf = Blocked"
  by (simp add: containerProcess_Wait_def newLoopState_def stdin_closer_def egWait_tasks_def)

subsection \<open>Properties of Solve\<close>






lemma reference_StatFile_requests:
  "c_requests (snd (reference_StatFile d path r c)) = c_requests c"
  by (simp add: reference_StatFile_def Let_def split: Reference.splits option.splits)

lemma EachRef_StatFile_requests:
  "c_requests (snd (EachRef_StatFile d rs c)) = c_requests c"
proof (induction rs arbitrary: c)
  case Nil
  then show ?case by simp
next
  case (Cons r rs)
  obtain e c1 where 1: "reference_StatFile d ''.'' r c = (e, c1)"
    by (cases "reference_StatFile d ''.'' r c")
  obtain e' c2 where 2: "EachRef_StatFile d rs c1 = (e', c2)"
    by (cases "EachRef_StatFile d rs c1")
  have "c_requests c1 = c_requests c"
    using reference_StatFile_requests [of d "''.''" r c] 1 by simp
  moreover have "c_requests c2 = c_requests c1"
    using Cons.IH [of c1] 2 by simp
  ultimately show ?case using 1 2 by simp
qed

lemma Solve_legacy_inline:
  assumes "check_caps (c_llbCaps c)
             (case sq_Definition creq of None \<Rightarrow> [] | Some df \<Rightarrow> Definition_caps df) = None"
    and "d_Solve d (c_wire c) (Solve_request c creq) = Inr resp"
    and "sr_Result resp = None" and "sr_Ref resp \<noteq> ''''"
  shows "\<exists>e c'. Solve l d creq c
            = (Ret (Some \<lparr>rs_Ref = Some (reference (sr_Ref resp) None), rs_Refs = None,
                          rs_Metadata = [], rs_Attestations = None\<rparr>, e), c')
          \<and> c_requests c' = (c_requests c)(sr_Ref resp \<mapsto> Solve_request c creq)
          \<and> (\<not> Solve_fallback c creq \<longrightarrow>
                e = None \<and> c_wire c' = c_wire c @ [RPC_Solve (Solve_request c creq)])"
proof -
  let ?req = "Solve_request c creq"
  let ?c2 = "c\<lparr>c_wire := c_wire c @ [RPC_Solve ?req],
               c_requests := (c_requests c)(sr_Ref resp \<mapsto> ?req)\<rparr>"
  let ?res = "\<lparr>rs_Ref = Some (reference (sr_Ref resp) None), rs_Refs = None,
               rs_Metadata = [], rs_Attestations = None\<rparr>"
  have s: "Solve l d creq c = Solve_return d (Solve_fallback c creq) ?res ?c2"
    using assms by (simp add: Solve_def Let_def SetRef_def NewResult_def)
  show ?thesis
  proof (cases "Solve_fallback c creq")
    case False
    then show ?thesis unfolding s by (simp add: Solve_return_def)
  next
    case True
    obtain e c' where e: "EachRef_StatFile d (Result_refs ?res) ?c2 = (e, c')"
      by (cases "EachRef_StatFile d (Result_refs ?res) ?c2")
    have "c_requests c' = c_requests ?c2"
      using EachRef_StatFile_requests [of d "Result_refs ?res" ?c2] e by simp
    then show ?thesis unfolding s using True e by (simp add: Solve_return_def)
  qed
qed

subsection \<open>Properties of the Run driver\<close>

lemma Run_legacy_mode:
  assumes "Supports (c_caps c) CapReturnResult \<noteq> None"
    and "f c = ((res, err), c1)"
    and "Run_body l d False res err c1 = (r0, c2)"
  shows "Run l d f c
         = (if fst (messageForwarder_Release d (c_execMsgs c2)) \<noteq> None \<and> r0 \<noteq> None
            then fst (messageForwarder_Release d (c_execMsgs c2)) else r0,
            c2\<lparr>c_execMsgs := snd (messageForwarder_Release d (c_execMsgs c2))\<rparr>)"
proof -
  have ne: "(Supports (c_caps c) CapReturnResult = None) = False" using assms(1) by simp
  show ?thesis
    unfolding Run_def ne Let_def assms(2) prod.case assms(3) if_False
    by (simp add: split_beta)
qed

lemma Run_export_mode:
  assumes "Supports (c_caps c) CapReturnResult = None"
    and "f c = ((res, err), c1)"
    and "Run_body l d True res err c1 = (r0, c2)"
  shows "Run l d f c
         = Run_export l d res
             (if fst (messageForwarder_Release d (c_execMsgs c2)) \<noteq> None \<and> r0 \<noteq> None
              then fst (messageForwarder_Release d (c_execMsgs c2)) else r0)
             (c2\<lparr>c_execMsgs := snd (messageForwarder_Release d (c_execMsgs c2))\<rparr>)"
proof -
  have ne: "(Supports (c_caps c) CapReturnResult = None) = True" using assms(1) by simp
  show ?thesis
    unfolding Run_def ne Let_def assms(2) prod.case assms(3) if_True
    by (simp add: split_beta)
qed

lemma Run_legacy_cached:
  assumes "Supports (c_caps c) CapReturnResult \<noteq> None"
    and "f c = ((Some res, None), c1)"
    and "rs_Ref res = Some (reference i df)" and "i \<noteq> ''''"
    and "c_requests c1 i = Some req"
    and "len_map (rs_Refs res) \<le> 1 \<or> Supports (c_caps c1) CapReturnMap = None"
    and "l_jsonMarshal l (rs_Metadata res) = Inr js"
  shows "c_wire (snd (Run l d f c))
         = c_wire c1 @ [RPC_Solve (req\<lparr>pq_Final := True, pq_ExporterAttr := js\<rparr>)]"
proof -
  let ?req = "req\<lparr>pq_Final := True, pq_ExporterAttr := js\<rparr>"
  have rf: "requestForRef c1 (rs_Ref res) = Inr req"
    using assms(3-5) by (simp add: requestForRef_def)
  have leg: "c_wire (snd (Run_legacy l d res c1)) = c_wire c1 @ [RPC_Solve ?req]"
    using assms(3,4,7) rf
    by (simp add: Run_legacy_def Let_def store_back_def split: sum.splits)
  have body: "Run_body l d False (Some res) None c1 = Run_legacy l d res c1"
    using assms(6) by (auto simp: Run_body_def split: option.splits)
  obtain r0 c2 where b: "Run_legacy l d res c1 = (r0, c2)" by (cases "Run_legacy l d res c1")
  have w: "c_wire c2 = c_wire c1 @ [RPC_Solve ?req]" using leg b by simp
  have bd: "Run_body l d False (Some res) None c1 = (r0, c2)" using body b by simp
  have "Run l d f c
         = (if fst (messageForwarder_Release d (c_execMsgs c2)) \<noteq> None \<and> r0 \<noteq> None
            then fst (messageForwarder_Release d (c_execMsgs c2)) else r0,
            c2\<lparr>c_execMsgs := snd (messageForwarder_Release d (c_execMsgs c2))\<rparr>)"
    using assms(1) assms(2) bd by (rule Run_legacy_mode [where f = f])
  then show ?thesis using w by simp
qed

text \<open>
  Claim C5. When the response to \<open>Solve\<close> has no embedded result and a non-empty ref id,
  the result is the single-ref result with that id and the request that was sent is
  cached under that id. When \<open>Run\<close> in legacy mode (the peer lacks \<open>ReturnResult\<close>) gets
  from the build function a result whose ref has a cached request, it issues \<open>Solve\<close>
  once more, with that request, \<open>Final\<close> set and \<open>ExporterAttr\<close> the JSON encoding of the
  result's metadata.
\<close>

theorem C5_legacy_inline_return:
  "(check_caps (c_llbCaps c)
        (case sq_Definition creq of None \<Rightarrow> [] | Some df \<Rightarrow> Definition_caps df) = None
      \<and> d_Solve d (c_wire c) (Solve_request c creq) = Inr resp
      \<and> sr_Result resp = None \<and> sr_Ref resp \<noteq> ''''
    \<longrightarrow> (\<exists>e c'. Solve l d creq c
             = (Ret (Some \<lparr>rs_Ref = Some (reference (sr_Ref resp) None), rs_Refs = None,
                           rs_Metadata = [], rs_Attestations = None\<rparr>, e), c')
           \<and> c_requests c' = (c_requests c)(sr_Ref resp \<mapsto> Solve_request c creq)
           \<and> (\<not> Solve_fallback c creq \<longrightarrow>
                 e = None \<and> c_wire c' = c_wire c @ [RPC_Solve (Solve_request c creq)])))
   \<and> (Supports (c_caps c0) CapReturnResult \<noteq> None
      \<and> f c0 = ((Some res, None), c1)
      \<and> rs_Ref res = Some (reference i df) \<and> i \<noteq> ''''
      \<and> c_requests c1 i = Some req
      \<and> (len_map (rs_Refs res) \<le> 1 \<or> Supports (c_caps c1) CapReturnMap = None)
      \<and> l_jsonMarshal l (rs_Metadata res) = Inr js
    \<longrightarrow> c_wire (snd (Run l d f c0))
          = c_wire c1 @ [RPC_Solve (req\<lparr>pq_Final := True, pq_ExporterAttr := js\<rparr>)])"
  using Solve_legacy_inline [of c creq d resp l] Run_legacy_cached [of c0 f res c1 i df req l js d]
  by blast

lemma ex_Solve_request: "Solve_request (ex_client Map.empty) (ex_creq None) = ex_req"
  by (simp add: Solve_request_def ex_client_def ex_creq_def ex_req_def Supports_def
      inherit_opt_def Let_def)

lemma ex_Solve:
  "Solve ex_library ex_daemon_legacy (ex_creq None) (ex_client Map.empty)
   = (Ret (Some \<lparr>rs_Ref = Some (reference ''r1'' None), rs_Refs = None,
                  rs_Metadata = [], rs_Attestations = None\<rparr>, None),
      (ex_client Map.empty)\<lparr>c_requests := [''r1'' \<mapsto> ex_req], c_wire := [RPC_Solve ex_req]\<rparr>)"
  by (simp add: Solve_def Solve_request_def Solve_fallback_def Solve_return_def Let_def
      SetRef_def NewResult_def ex_creq_def ex_client_def ex_daemon_legacy_def ex_req_def
      Supports_def inherit_opt_def)

theorem C5_legacy_inline_return_witness:
  "Solve ex_library ex_daemon_legacy (ex_creq None) (ex_client Map.empty)
   = (Ret (Some \<lparr>rs_Ref = Some (reference ''r1'' None), rs_Refs = None,
                  rs_Metadata = [], rs_Attestations = None\<rparr>, None),
      (ex_client Map.empty)\<lparr>c_requests := [''r1'' \<mapsto> ex_req], c_wire := [RPC_Solve ex_req]\<rparr>)
   \<and> c_wire (snd (Run ex_library ex_daemon_legacy
                     (ex_build_solve ex_library ex_daemon_legacy (ex_creq None))
                     (ex_client Map.empty)))
     = [RPC_Solve ex_req, RPC_Solve (ex_req\<lparr>pq_Final := True, pq_ExporterAttr := ''{}''\<rparr>)]"
  using C5_legacy_inline_return [where c = "ex_client Map.empty" and creq = "ex_creq None"
      and d = ex_daemon_legacy and l = ex_library
      and resp = "\<lparr>sr_Ref = ''r1'', sr_Result = None\<rparr>"
      and ?c0.0 = "ex_client Map.empty"
      and f = "ex_build_solve ex_library ex_daemon_legacy (ex_creq None)"
      and res = "\<lparr>rs_Ref = Some (reference ''r1'' None), rs_Refs = None,
                  rs_Metadata = [], rs_Attestations = None\<rparr>"
      and ?c1.0 = "(ex_client Map.empty)\<lparr>c_requests := [''r1'' \<mapsto> ex_req], c_wire := [RPC_Solve ex_req]\<rparr>"
      and i = "''r1''" and df = None and req = ex_req and js = "''{}''"]
  by (simp add: ex_Solve ex_build_solve_def ex_Solve_request)
     (simp add: ex_creq_def ex_client_def ex_daemon_legacy_def ex_library_def Supports_def
        len_map_def CapReturnResult_def)

lemma requestForRef_DidNotFind:
  "(requestForRef c r = Inl (DidNotFindRequest i))
   = (i \<noteq> '''' \<and> c_requests c i = None \<and> (\<exists>df. r = Some (reference i df)))"
  by (auto simp: requestForRef_def split: option.splits Reference.splits)

lemma requestForRef_empty:
  "r = None \<or> (\<exists>df. r = Some (reference '''' df)) \<Longrightarrow> requestForRef c r = Inr emptyReq"
  by (auto simp: requestForRef_def)

lemma Run_body_legacy:
  assumes "len_map (rs_Refs res) \<le> 1 \<or> Supports (c_caps c1) CapReturnMap = None"
  shows "Run_body l d False (Some res) None c1 = Run_legacy l d res c1"
  using assms by (auto simp: Run_body_def split: option.splits)

lemma Run_legacy_DidNotFind:
  assumes "l_jsonMarshal l (rs_Metadata res) = Inr js"
  shows "(fst (Run_legacy l d res c1)
            = Some (Wrapf (DidNotFindRequest i) ''failed to find return ref''))
         = (requestForRef c1 (rs_Ref res) = Inl (DidNotFindRequest i))"
  using assms by (auto simp: Run_legacy_def Let_def split: sum.splits)

text \<open>
  The legacy path of \<open>Run\<close> by the ref of the result. When the ref is nil or has an empty
  id, the lookup yields the fresh empty request and \<open>Run\<close> issues the final \<open>Solve\<close> on
  it with \<open>Final\<close> set, returning nil when that \<open>Solve\<close> succeeds. The body of \<open>Run\<close>
  fails with the wrapped did-not-find error exactly when the ref has a non-empty id with
  no cached request, and \<open>Run\<close> returns that error only when its body failed with it
  (the error of the inbound pump being another one); \<open>Run\<close> then fails without issuing
  a \<open>Solve\<close>, with that error when the release of the multiplexer returns nil.
\<close>

lemma Run_legacy_by_ref:
  assumes "Supports (c_caps c) CapReturnResult \<noteq> None"
    and "f c = ((Some res, None), c1)"
    and "len_map (rs_Refs res) \<le> 1 \<or> Supports (c_caps c1) CapReturnMap = None"
    and "l_jsonMarshal l (rs_Metadata res) = Inr js"
  shows "(rs_Ref res = None \<or> (\<exists>df. rs_Ref res = Some (reference '''' df)) \<longrightarrow>
            requestForRef c1 (rs_Ref res) = Inr emptyReq
            \<and> c_wire (snd (Run l d f c))
                = c_wire c1 @ [RPC_Solve (emptyReq\<lparr>pq_Final := True, pq_ExporterAttr := js\<rparr>)]
            \<and> (\<forall>resp. d_Solve d (c_wire c1) (emptyReq\<lparr>pq_Final := True, pq_ExporterAttr := js\<rparr>)
                         = Inr resp \<longrightarrow> fst (Run l d f c) = None))
         \<and> (\<forall>i. (fst (Run_body l d False (Some res) None c1)
                    = Some (Wrapf (DidNotFindRequest i) ''failed to find return ref''))
                 = (i \<noteq> '''' \<and> c_requests c1 i = None
                    \<and> (\<exists>df. rs_Ref res = Some (reference i df))))
         \<and> (\<forall>i. d_pump d \<noteq> Some (Wrapf (DidNotFindRequest i) ''failed to find return ref'')
                 \<and> fst (Run l d f c)
                     = Some (Wrapf (DidNotFindRequest i) ''failed to find return ref'')
                 \<longrightarrow> fst (Run_body l d False (Some res) None c1)
                     = Some (Wrapf (DidNotFindRequest i) ''failed to find return ref''))
         \<and> (\<forall>i df. rs_Ref res = Some (reference i df) \<and> i \<noteq> '''' \<and> c_requests c1 i = None \<longrightarrow>
                fst (Run l d f c) \<noteq> None
                \<and> c_wire (snd (Run l d f c)) = c_wire c1
                \<and> (fst (messageForwarder_Release d (c_execMsgs c1)) = None \<longrightarrow>
                     fst (Run l d f c)
                       = Some (Wrapf (DidNotFindRequest i) ''failed to find return ref'')))"
proof (intro conjI impI allI)
  note body = Run_body_legacy [OF assms(3), of l d]
  obtain r0 c2 where b: "Run_legacy l d res c1 = (r0, c2)" by (cases "Run_legacy l d res c1")
  have bd: "Run_body l d False (Some res) None c1 = (r0, c2)" using body b by simp
  have run: "Run l d f c
         = (if fst (messageForwarder_Release d (c_execMsgs c2)) \<noteq> None \<and> r0 \<noteq> None
            then fst (messageForwarder_Release d (c_execMsgs c2)) else r0,
            c2\<lparr>c_execMsgs := snd (messageForwarder_Release d (c_execMsgs c2))\<rparr>)"
    using assms(1) assms(2) bd by (rule Run_legacy_mode [where f = f])
  {
    assume e: "rs_Ref res = None \<or> (\<exists>df. rs_Ref res = Some (reference '''' df))"
    then show rf: "requestForRef c1 (rs_Ref res) = Inr emptyReq" by (rule requestForRef_empty)
    have sb: "store_back (rs_Ref res) (emptyReq\<lparr>pq_Final := True, pq_ExporterAttr := js\<rparr>) c1 = c1"
      using e by (auto simp: store_back_def)
    have leg: "c_wire c2 = c_wire c1 @ [RPC_Solve (emptyReq\<lparr>pq_Final := True, pq_ExporterAttr := js\<rparr>)]"
      using b rf sb assms(4) by (auto simp: Run_legacy_def Let_def split: sum.splits)
    show "c_wire (snd (Run l d f c))
            = c_wire c1 @ [RPC_Solve (emptyReq\<lparr>pq_Final := True, pq_ExporterAttr := js\<rparr>)]"
      unfolding run using leg by simp
    fix resp
    assume "d_Solve d (c_wire c1) (emptyReq\<lparr>pq_Final := True, pq_ExporterAttr := js\<rparr>) = Inr resp"
    then have "r0 = None"
      using b rf sb assms(4) by (auto simp: Run_legacy_def Let_def split: sum.splits)
    then show "fst (Run l d f c) = None" unfolding run by simp
  }
  {
    fix i
    show "(fst (Run_body l d False (Some res) None c1)
            = Some (Wrapf (DidNotFindRequest i) ''failed to find return ref''))
          = (i \<noteq> '''' \<and> c_requests c1 i = None \<and> (\<exists>df. rs_Ref res = Some (reference i df)))"
      unfolding body Run_legacy_DidNotFind [OF assms(4)] requestForRef_DidNotFind ..
  }
  {
    fix i
    let ?W = "Wrapf (DidNotFindRequest i) ''failed to find return ref''"
    assume p: "d_pump d \<noteq> Some ?W \<and> fst (Run l d f c) = Some ?W"
    have "fst (messageForwarder_Release d (c_execMsgs c2)) \<noteq> Some ?W"
      using p by (simp add: messageForwarder_Release_def)
    then have "r0 = Some ?W" using p unfolding run by (simp split: if_splits)
    then show "fst (Run_body l d False (Some res) None c1) = Some ?W" using bd by simp
  }
  {
    fix i df
    assume a: "rs_Ref res = Some (reference i df) \<and> i \<noteq> '''' \<and> c_requests c1 i = None"
    then have rf: "requestForRef c1 (rs_Ref res) = Inl (DidNotFindRequest i)"
      by (simp add: requestForRef_def)
    have r0: "r0 = Some (Wrapf (DidNotFindRequest i) ''failed to find return ref'')" and c2: "c2 = c1"
      using b rf assms(4) by (auto simp: Run_legacy_def)
    show "fst (Run l d f c) \<noteq> None" unfolding run using r0 by auto
    show "c_wire (snd (Run l d f c)) = c_wire c1" unfolding run using c2 by simp
    assume "fst (messageForwarder_Release d (c_execMsgs c1)) = None"
    then show "fst (Run l d f c) = Some (Wrapf (DidNotFindRequest i) ''failed to find return ref'')"
      unfolding run using r0 c2 by simp
  }
qed

lemma ex_Run_legacy_by_ref:
  "c_wire (snd (Run ex_library ex_daemon_legacy (ex_build_result NewResult) (ex_client Map.empty)))
     = [RPC_Solve (emptyReq\<lparr>pq_Final := True, pq_ExporterAttr := ''{}''\<rparr>)]
   \<and> fst (Run ex_library ex_daemon_legacy (ex_build_result NewResult) (ex_client Map.empty)) = None
   \<and> fst (Run ex_library ex_daemon_legacy
            (ex_build_result (SetRef (reference ''r9'' None) NewResult)) (ex_client Map.empty))
     = Some (Wrapf (DidNotFindRequest ''r9'') ''failed to find return ref'')"
  using Run_legacy_by_ref [where c = "ex_client Map.empty" and f = "ex_build_result NewResult"
           and res = NewResult and ?c1.0 = "ex_client Map.empty" and l = ex_library
           and js = "''{}''" and d = ex_daemon_legacy]
        Run_legacy_by_ref [where c = "ex_client Map.empty"
           and f = "ex_build_result (SetRef (reference ''r9'' None) NewResult)"
           and res = "SetRef (reference ''r9'' None) NewResult" and ?c1.0 = "ex_client Map.empty"
           and l = ex_library and js = "''{}''" and d = ex_daemon_legacy]
  by (simp add: ex_build_result_def ex_client_def ex_library_def ex_daemon_legacy_def
        Supports_def NewResult_def SetRef_def len_map_def messageForwarder_Release_def
        newMessageForwarder_def)

text \<open>What holds of the release in \<open>Run\<close>: the multiplexer is released on every path,
  and when the release returns nil a failure of the build function is what \<open>Run\<close>
  returns.\<close>

lemma Run_export_keeps_execMsgs:
  "c_execMsgs (snd (Run_export l d res retError c)) = c_execMsgs c"
  by (simp add: Run_export_def Let_def split_beta)

lemma Run_releases:
  "mf_cancelled (c_execMsgs (snd (Run l d f c)))"
  by (simp add: Run_def Let_def split_beta Run_export_keeps_execMsgs messageForwarder_Release_def)

lemma Run_body_build_error:
  "Run_body l d export res (Some e) c = (Some e, c)"
  by (simp add: Run_body_def)

lemma Run_export_error:
  "Run_export l d res (Some e) c
   = (Some e, c\<lparr>c_wire := c_wire c @ [RPC_Return \<lparr>rr_Result = None, rr_Error = Some (l_statusOf l e)\<rparr>]\<rparr>)"
  by (simp add: Run_export_def Let_def)

lemma Run_build_error_release_nil:
  assumes "f c = ((res, Some e), c1)"
    and "fst (messageForwarder_Release d (c_execMsgs c1)) = None"
  shows "fst (Run l d f c) = Some e"
proof (cases "Supports (c_caps c) CapReturnResult = None")
  case True
  have "Run l d f c = Run_export l d res (Some e)
          (c1\<lparr>c_execMsgs := snd (messageForwarder_Release d (c_execMsgs c1))\<rparr>)"
    using Run_export_mode [where f = f, OF True assms(1) Run_body_build_error] assms(2) by simp
  then show ?thesis by (simp add: Run_export_error)
next
  case False
  show ?thesis
    using Run_legacy_mode [where f = f, OF False assms(1) Run_body_build_error] assms(2) by simp
qed

text \<open>What holds of the capability check for results with several refs: when the
  release of the multiplexer returns nil, \<open>Run\<close> fails with the capability error, and in
  either case it issues no final \<open>Solve\<close> and no \<open>Return\<close> with a result.\<close>

lemma Run_body_multi_ref:
  assumes "1 < len_map (rs_Refs res)" and "Supports (c_caps c1) CapReturnMap = Some e"
  shows "Run_body l d export (Some res) None c1 = (Some e, c1)"
  using assms by (simp add: Run_body_def)

lemma Run_multi_ref_without_ReturnMap:
  assumes "f c = ((Some res, None), c1)"
    and "1 < len_map (rs_Refs res)" and "Supports (c_caps c1) CapReturnMap = Some e"
  shows "fst (Run l d f c)
         = Some (case fst (messageForwarder_Release d (c_execMsgs c1)) of None \<Rightarrow> e | Some r \<Rightarrow> r)"
    and "c_wire (snd (Run l d f c))
         = c_wire c1 @
           (if Supports (c_caps c) CapReturnResult = None
            then [RPC_Return \<lparr>rr_Result = None, rr_Error =
                    Some (l_statusOf l (case fst (messageForwarder_Release d (c_execMsgs c1)) of
                                          None \<Rightarrow> e | Some r \<Rightarrow> r))\<rparr>]
            else [])"
proof -
  note b = Run_body_multi_ref [OF assms(2) assms(3)]
  show "fst (Run l d f c)
         = Some (case fst (messageForwarder_Release d (c_execMsgs c1)) of None \<Rightarrow> e | Some r \<Rightarrow> r)"
  proof (cases "Supports (c_caps c) CapReturnResult = None")
    case True
    show ?thesis
      unfolding Run_export_mode [where f = f, OF True assms(1) b]
      by (cases "fst (messageForwarder_Release d (c_execMsgs c1))") (simp_all add: Run_export_error)
  next
    case False
    show ?thesis
      unfolding Run_legacy_mode [where f = f, OF False assms(1) b]
      by (cases "fst (messageForwarder_Release d (c_execMsgs c1))") simp_all
  qed
  show "c_wire (snd (Run l d f c))
         = c_wire c1 @
           (if Supports (c_caps c) CapReturnResult = None
            then [RPC_Return \<lparr>rr_Result = None, rr_Error =
                    Some (l_statusOf l (case fst (messageForwarder_Release d (c_execMsgs c1)) of
                                          None \<Rightarrow> e | Some r \<Rightarrow> r))\<rparr>]
            else [])"
  proof (cases "Supports (c_caps c) CapReturnResult = None")
    case True
    show ?thesis
      unfolding Run_export_mode [where f = f, OF True assms(1) b]
      using True
      by (cases "fst (messageForwarder_Release d (c_execMsgs c1))") (simp_all add: Run_export_error)
  next
    case False
    show ?thesis
      unfolding Run_legacy_mode [where f = f, OF False assms(1) b]
      using False by simp
  qed
qed

lemma ex_NewContainer:
  "caps CapGatewayExec = Some True \<Longrightarrow>
   snd (NewContainer ex_daemon_broken ''ctr1'' \<lparr>nc_Mounts = [], nc_Opts = []\<rparr> (ex_client caps))
   = (ex_client caps)
       \<lparr>c_wire := [RPC_NewContainer \<lparr>nq_ContainerID = ''ctr1'', nq_Mounts = [], nq_Opts = []\<rparr>],
        c_execMsgs := newMessageForwarder\<lparr>mf_startOnce := True, mf_opened := 1,
                                          mf_stream := True, mf_pump := True\<rparr>\<rparr>"
  by (simp add: NewContainer_def Supports_def Let_def ex_client_def messageForwarder_Start_def
      newMessageForwarder_def ex_daemon_broken_def ex_daemon_legacy_def)

text \<open>
  Claim C1 fails on the code. The build function creates a container, which opens the
  exec stream, and fails with \<open>build failed\<close>; the inbound pump has failed with
  \<open>transport is closing\<close>. The deferred release assigns its error to \<open>retError\<close> when both
  are non-nil, so \<open>Run\<close> returns the release error in legacy mode and in export mode, and
  in export mode the \<open>Return\<close> RPC carries the release error as well.
\<close>

theorem C1_release_error_replaces_build_error:
  "fst (Run ex_library ex_daemon_broken
          (ex_build_exec ex_daemon_broken (None, Some (OtherError ''build failed'')))
          (ex_client [CapGatewayExec \<mapsto> True]))
     = Some (RpcError 14 ''transport is closing'')
   \<and> fst (Run ex_library ex_daemon_broken
          (ex_build_exec ex_daemon_broken (None, Some (OtherError ''build failed'')))
          (ex_client [CapReturnResult \<mapsto> True, CapGatewayExec \<mapsto> True]))
     = Some (RpcError 14 ''transport is closing'')
   \<and> c_wire (snd (Run ex_library ex_daemon_broken
          (ex_build_exec ex_daemon_broken (None, Some (OtherError ''build failed'')))
          (ex_client [CapReturnResult \<mapsto> True, CapGatewayExec \<mapsto> True])))
     = [RPC_NewContainer \<lparr>nq_ContainerID = ''ctr1'', nq_Mounts = [], nq_Opts = []\<rparr>,
        RPC_Return \<lparr>rr_Result = None,
                    rr_Error = Some \<lparr>st_Code = 14, st_Message = ''transport is closing'',
                                     st_Details = []\<rparr>\<rparr>]"
  by (simp add: Run_def Run_body_def Run_export_def ex_build_exec_def ex_NewContainer
        messageForwarder_Release_def Let_def)
     (simp add: ex_client_def Supports_def ex_daemon_broken_def ex_daemon_legacy_def
        ex_library_def CapReturnResult_def CapGatewayExec_def)

text \<open>
  Claim C6 fails on the code for the same reason as C1. The build function creates a
  container and returns a result with two refs, the peer lacks \<open>ReturnMap\<close>, and the
  inbound pump has failed: \<open>Run\<close> returns the release error, not the capability error.
\<close>

theorem C6_release_error_replaces_capability_error:
  "Supports (c_caps (ex_client [CapReturnResult \<mapsto> True, CapGatewayExec \<mapsto> True])) CapReturnMap
     = Some (MissingCap CapReturnMap)
   \<and> len_map (rs_Refs ex_two_refs) = 2
   \<and> fst (Run ex_library ex_daemon_broken
          (ex_build_exec ex_daemon_broken (Some ex_two_refs, None))
          (ex_client [CapReturnResult \<mapsto> True, CapGatewayExec \<mapsto> True]))
     = Some (RpcError 14 ''transport is closing'')"
  by (simp add: Run_def Run_body_def Run_export_def ex_build_exec_def ex_NewContainer
        messageForwarder_Release_def Let_def)
     (simp add: ex_client_def Supports_def ex_daemon_broken_def ex_daemon_legacy_def
        ex_library_def CapReturnResult_def CapGatewayExec_def CapReturnMap_def
        ex_two_refs_def len_map_def)

lemma emptyReq_Definition:
  "pq_Definition emptyReq = Some \<lparr>df_Def = [], df_Metadata = []\<rparr> \<and> \<not> pq_Final emptyReq"
  by (simp add: emptyReq_def)

text \<open>
  Claim C10 fails on the code for the same reason as C1. In legacy mode the build
  function creates a container and returns a result whose ref \<open>r9\<close> has no cached
  request. When the stream is healthy \<open>Run\<close> fails with the did-not-find error; when the
  inbound pump has failed, the deferred release replaces that error and \<open>Run\<close> returns
  the release error. In both cases no \<open>Solve\<close> is issued. The other half of the claim
  holds: for a result without a ref \<open>Run\<close> issues the final \<open>Solve\<close> on the request with
  the empty definition and \<open>Final\<close> set.
\<close>

theorem C10_release_error_replaces_did_not_find:
  "c_requests (ex_client [CapGatewayExec \<mapsto> True]) ''r9'' = None
   \<and> fst (Run ex_library ex_daemon_legacy
          (ex_build_exec ex_daemon_legacy (Some (SetRef (reference ''r9'' None) NewResult), None))
          (ex_client [CapGatewayExec \<mapsto> True]))
     = Some (Wrapf (DidNotFindRequest ''r9'') ''failed to find return ref'')
   \<and> fst (Run ex_library ex_daemon_broken
          (ex_build_exec ex_daemon_broken (Some (SetRef (reference ''r9'' None) NewResult), None))
          (ex_client [CapGatewayExec \<mapsto> True]))
     = Some (RpcError 14 ''transport is closing'')
   \<and> c_wire (snd (Run ex_library ex_daemon_broken
          (ex_build_exec ex_daemon_broken (Some (SetRef (reference ''r9'' None) NewResult), None))
          (ex_client [CapGatewayExec \<mapsto> True])))
     = [RPC_NewContainer \<lparr>nq_ContainerID = ''ctr1'', nq_Mounts = [], nq_Opts = []\<rparr>]
   \<and> map (\<lambda>r. case r of RPC_Solve q \<Rightarrow> Some (pq_Definition q, pq_Final q) | _ \<Rightarrow> None)
         (c_wire (snd (Run ex_library ex_daemon_legacy (ex_build_result NewResult)
                         (ex_client Map.empty))))
     = [Some (Some \<lparr>df_Def = [], df_Metadata = []\<rparr>, True)]"
  by (simp add: Run_def Run_body_def Run_legacy_def requestForRef_def ex_build_exec_def
        ex_build_result_def NewContainer_def messageForwarder_Start_def
        messageForwarder_Release_def store_back_def Let_def SetRef_def NewResult_def
        len_map_def emptyReq_def ex_client_def Supports_def ex_daemon_broken_def
        ex_daemon_legacy_def ex_library_def newMessageForwarder_def CapReturnResult_def
        CapGatewayExec_def CapReturnMap_def)

subsection \<open>Properties of the mailbox\<close>

lemma Close_closes_done:
  "Ret b' \<in> set (procMessageForwarder_Close p1 p2 b) \<Longrightarrow> pm_done b'"
  by (auto simp: procMessageForwarder_Close_def procMessageForwarder_Send_def
        procMessageForwarder_Recv_def closeOnce_Do_def Let_def split: if_splits peer.splits)

lemma Recv_after_done:
  "pm_done b \<Longrightarrow> (None, False) \<in> set (procMessageForwarder_Recv ctx_done p b)"
  by (simp add: procMessageForwarder_Recv_def)

lemma Send_after_done:
  "pm_done b \<Longrightarrow> (SendDone, closeOnce_Do b) \<in> set (procMessageForwarder_Send ctx_done p m b)"
  by (simp add: procMessageForwarder_Send_def)

text \<open>
  Claim C2 fails on the code. \<open>Close\<close> on a new mailbox, with no other goroutine at the
  channels, leaves both \<open>done\<close> and \<open>msgs\<close> closed. A \<open>Recv\<close> after it has two cases that
  can proceed, and returns \<open>(nil, false)\<close> or \<open>(nil, true)\<close>; a \<open>Send\<close> after it either
  drops the message or panics with a send on the closed channel \<open>msgs\<close>.
\<close>

theorem C2_Recv_Send_after_Close:
  "procMessageForwarder_Close NoPeer NoPeer newProcMessageForwarder
     = [Ret \<lparr>pm_done = True, pm_closeOnce = True, pm_msgs = True\<rparr>]
   \<and> procMessageForwarder_Recv False NoPeer \<lparr>pm_done = True, pm_closeOnce = True, pm_msgs = True\<rparr>
     = [(None, False), (None, True)]
   \<and> map fst (procMessageForwarder_Send False NoPeer (Some m)
                 \<lparr>pm_done = True, pm_closeOnce = True, pm_msgs = True\<rparr>)
     = [SendDone, SendPanic]"
  by (simp add: procMessageForwarder_Close_def procMessageForwarder_Recv_def
        procMessageForwarder_Send_def newProcMessageForwarder_def closeOnce_Do_def)

end
